theory Spec2Isabelle
  imports Main "HOL-Library.Word"
begin

section \<open>Solution snapshots of the constraint solver (constraint\_solver/assignment.cc)\<close>

subsection \<open>Machine integers and pointers\<close>

type_synonym int64 = "64 word"

text \<open>
  Modelled from the spec: the two constants of \<^verbatim>\<open>base/integral_types.h\<close>, the ends of the full
  64-bit signed range, as two's complement words.
\<close>

definition kint64min :: int64 where
  "kint64min = 0x8000000000000000"

definition kint64max :: int64 where
  "kint64max = 0x7FFFFFFFFFFFFFFF"

text \<open>
  A pointer to a live variable (\<^verbatim>\<open>IntVar*\<close>, \<^verbatim>\<open>IntervalVar*\<close>) is the identity of the
  variable, or \<open>None\<close> for \<^verbatim>\<open>NULL\<close>. The elements never own the variable.
\<close>

type_synonym var_ptr = "nat option"

subsection \<open>Outcomes of calls into the propagation engine\<close>

text \<open>
  A mutator of a live variable either returns, or raises the solver's constraint failure,
  which leaves every enclosing function of this file at once: none of them catches it.
  \<open>Failed s\<close> carries the state of the solver at the moment of the raise. \<open>Crashed\<close>
  is a call through a \<^verbatim>\<open>NULL\<close> variable pointer.
\<close>

datatype 's outcome = Done 's | Failed 's | Crashed

fun and_then :: "'s outcome \<Rightarrow> ('s \<Rightarrow> 's outcome) \<Rightarrow> 's outcome" where
  "and_then (Done s) f = f s"
| "and_then (Failed s) f = Failed s"
| "and_then Crashed f = Crashed"

text \<open>
  The interfaces this file consumes from its collaborators: the accessors and mutators of
  the integer variable and of the interval variable, and the two queue operations of the
  propagation base object. They are abstract (virtual) in the solver, so the code below
  takes them as a parameter; \<open>'s\<close> is the state of the solver.
\<close>

record 's solver_ops =
  IntVar_Min :: "nat \<Rightarrow> 's \<Rightarrow> int64"
  IntVar_Max :: "nat \<Rightarrow> 's \<Rightarrow> int64"
  IntVar_SetRange :: "nat \<Rightarrow> int64 \<Rightarrow> int64 \<Rightarrow> 's \<Rightarrow> 's outcome"
  IntVar_name :: "nat \<Rightarrow> string"
  StartMin :: "nat \<Rightarrow> 's \<Rightarrow> int64"
  StartMax :: "nat \<Rightarrow> 's \<Rightarrow> int64"
  DurationMin :: "nat \<Rightarrow> 's \<Rightarrow> int64"
  DurationMax :: "nat \<Rightarrow> 's \<Rightarrow> int64"
  EndMin :: "nat \<Rightarrow> 's \<Rightarrow> int64"
  EndMax :: "nat \<Rightarrow> 's \<Rightarrow> int64"
  PerformedMin :: "nat \<Rightarrow> 's \<Rightarrow> int64"
  PerformedMax :: "nat \<Rightarrow> 's \<Rightarrow> int64"
  SetPerformed :: "nat \<Rightarrow> int64 \<Rightarrow> 's \<Rightarrow> 's outcome"
  SetStartRange :: "nat \<Rightarrow> int64 \<Rightarrow> int64 \<Rightarrow> 's \<Rightarrow> 's outcome"
  SetDurationRange :: "nat \<Rightarrow> int64 \<Rightarrow> int64 \<Rightarrow> 's \<Rightarrow> 's outcome"
  SetEndRange :: "nat \<Rightarrow> int64 \<Rightarrow> int64 \<Rightarrow> 's \<Rightarrow> 's outcome"
  IntervalVar_name :: "nat \<Rightarrow> string"
  FreezeQueue :: "'s \<Rightarrow> 's"
  UnfreezeQueue :: "'s \<Rightarrow> 's outcome"

subsection \<open>IntVarElement\<close>

text \<open>
  Modelled from the spec: the field \<open>e_activated\<close>, the activation flag of the element's
  base class, which is declared in the header and which this file reaches only through
  \<^verbatim>\<open>Activated()\<close>, \<^verbatim>\<open>Activate()\<close> and \<^verbatim>\<open>Deactivate()\<close>: a soft flag. The fields \<open>e_var\<close>,
  \<open>e_min\<close>, \<open>e_max\<close> are the members \<^verbatim>\<open>var_\<close>, \<^verbatim>\<open>min_\<close>, \<^verbatim>\<open>max_\<close> that the member functions
  of this file assign (a name cannot end with an underscore here).
\<close>

record IntVarElement =
  e_var :: var_ptr
  e_min :: int64
  e_max :: int64
  e_activated :: bool

text \<open>Modelled from the spec: the three inline member functions of the activation flag.\<close>

definition IntVarElement_Activated :: "IntVarElement \<Rightarrow> bool" where
  "IntVarElement_Activated e = e_activated e"

definition IntVarElement_Activate :: "IntVarElement \<Rightarrow> IntVarElement" where
  "IntVarElement_Activate e = e\<lparr>e_activated := True\<rparr>"

definition IntVarElement_Deactivate :: "IntVarElement \<Rightarrow> IntVarElement" where
  "IntVarElement_Deactivate e = e\<lparr>e_activated := False\<rparr>"

text \<open>
  Modelled from the spec: the inline accessors and setters of the element, which are pure
  value storage with no check against the live variable. \<^verbatim>\<open>Value()\<close> is meaningful only
  when \<open>e_min = e_max\<close>.
\<close>

definition IntVarElement_Min :: "IntVarElement \<Rightarrow> int64" where
  "IntVarElement_Min e = e_min e"

definition IntVarElement_Max :: "IntVarElement \<Rightarrow> int64" where
  "IntVarElement_Max e = e_max e"

definition IntVarElement_Value :: "IntVarElement \<Rightarrow> int64" where
  "IntVarElement_Value e = e_min e"

definition IntVarElement_Bound :: "IntVarElement \<Rightarrow> bool" where
  "IntVarElement_Bound e = (e_max e = e_min e)"

definition IntVarElement_SetRange :: "int64 \<Rightarrow> int64 \<Rightarrow> IntVarElement \<Rightarrow> IntVarElement" where
  "IntVarElement_SetRange l u e = e\<lparr>e_min := l, e_max := u\<rparr>"

text \<open>\<^verbatim>\<open>IntVarElement::Reset\<close> assigns three fields and nothing else.\<close>

definition IntVarElement_Reset :: "var_ptr \<Rightarrow> IntVarElement \<Rightarrow> IntVarElement" where
  "IntVarElement_Reset var e = e\<lparr>e_var := var, e_min := kint64min, e_max := kint64max\<rparr>"

text \<open>
  Modelled from the spec: the base class's constructor, which makes a new element active. The
  constructors of this file then call \<open>Reset\<close>; the three other fields hold no value
  before \<open>Reset\<close> assigns them.
\<close>

definition IntVarElement_new :: "var_ptr \<Rightarrow> IntVarElement" where
  "IntVarElement_new var =
     IntVarElement_Reset var \<lparr>e_var = None, e_min = 0, e_max = 0, e_activated = True\<rparr>"

definition IntVarElement_Copy :: "IntVarElement \<Rightarrow> IntVarElement \<Rightarrow> IntVarElement" where
  "IntVarElement_Copy element e =
     (let e1 = IntVarElement_SetRange (e_min element) (e_max element) e;
          e2 = e1\<lparr>e_var := e_var element\<rparr>
      in if IntVarElement_Activated element then IntVarElement_Activate e2
         else IntVarElement_Deactivate e2)"

definition IntVarElement_Clone :: "IntVarElement \<Rightarrow> IntVarElement" where
  "IntVarElement_Clone e = IntVarElement_Copy e (IntVarElement_new None)"

text \<open>
  Modelled from the spec: \<^verbatim>\<open>IntVarElement::Store\<close> and \<^verbatim>\<open>IntVarElement::Restore\<close>, which are
  inline in the header: \<open>Store\<close> reads the live minimum and maximum into the stored
  fields, \<open>Restore\<close> always pushes the stored range to the live variable.
\<close>

definition IntVarElement_Store :: "'s solver_ops \<Rightarrow> 's \<Rightarrow> IntVarElement \<Rightarrow> IntVarElement option" where
  "IntVarElement_Store ops s e =
     (case e_var e of
        None \<Rightarrow> None
      | Some v \<Rightarrow> Some (e\<lparr>e_min := IntVar_Min ops v s, e_max := IntVar_Max ops v s\<rparr>))"

definition IntVarElement_Restore :: "'s solver_ops \<Rightarrow> IntVarElement \<Rightarrow> 's \<Rightarrow> 's outcome" where
  "IntVarElement_Restore ops e s =
     (case e_var e of
        None \<Rightarrow> Crashed
      | Some v \<Rightarrow> IntVar_SetRange ops v (e_min e) (e_max e) s)"

subsection \<open>Decimal rendering\<close>

text \<open>
  \<^verbatim>\<open>StringPrintf\<close> with the conversion \<^verbatim>\<open>%lld\<close> (\<^verbatim>\<open>GG_LL_FORMAT\<close> is the length modifier): the
  signed decimal numeral of a 64-bit integer.
\<close>

definition digit_char :: "nat \<Rightarrow> char" where
  "digit_char d = char_of (48 + d)"

fun show_nat :: "nat \<Rightarrow> string" where
  "show_nat n = (if n < 10 then [digit_char n] else show_nat (n div 10) @ [digit_char (n mod 10)])"

declare show_nat.simps [simp del]

definition show_int :: "int \<Rightarrow> string" where
  "show_int i = (if i < 0 then CHR ''-'' # show_nat (nat (- i)) else show_nat (nat i))"

definition show_int64 :: "int64 \<Rightarrow> string" where
  "show_int64 x = show_int (sint x)"

definition IntVarElement_DebugString :: "IntVarElement \<Rightarrow> string" where
  "IntVarElement_DebugString e =
     (if IntVarElement_Activated e then
        (if e_min e = e_max e then ''('' @ show_int64 (e_min e) @ '')''
         else ''('' @ show_int64 (e_min e) @ ''..'' @ show_int64 (e_max e) @ '')'')
      else ''(...)'')"

subsection \<open>IntervalVarElement\<close>

text \<open>
  Modelled from the spec: the field \<open>i_activated\<close>, the activation flag of the base class,
  as for the integer element. The other fields are the members \<^verbatim>\<open>var_\<close>, \<^verbatim>\<open>start_min_\<close> ...
  \<^verbatim>\<open>performed_max_\<close>.
\<close>

record IntervalVarElement =
  i_var :: var_ptr
  start_min :: int64
  start_max :: int64
  duration_min :: int64
  duration_max :: int64
  end_min :: int64
  end_max :: int64
  performed_min :: int64
  performed_max :: int64
  i_activated :: bool

text \<open>Modelled from the spec: the three inline member functions of the activation flag.\<close>

definition IntervalVarElement_Activated :: "IntervalVarElement \<Rightarrow> bool" where
  "IntervalVarElement_Activated e = i_activated e"

definition IntervalVarElement_Activate :: "IntervalVarElement \<Rightarrow> IntervalVarElement" where
  "IntervalVarElement_Activate e = e\<lparr>i_activated := True\<rparr>"

definition IntervalVarElement_Deactivate :: "IntervalVarElement \<Rightarrow> IntervalVarElement" where
  "IntervalVarElement_Deactivate e = e\<lparr>i_activated := False\<rparr>"

definition IntervalVarElement_Reset :: "var_ptr \<Rightarrow> IntervalVarElement \<Rightarrow> IntervalVarElement" where
  "IntervalVarElement_Reset var e =
     e\<lparr>i_var := var,
       start_min := kint64min, start_max := kint64max,
       duration_min := kint64min, duration_max := kint64max,
       end_min := kint64min, end_max := kint64max,
       performed_min := 0, performed_max := 1\<rparr>"

text \<open>
  Modelled from the spec: the base class's constructor makes a new element active; the
  constructors of this file then call \<open>Reset\<close>.
\<close>

definition IntervalVarElement_new :: "var_ptr \<Rightarrow> IntervalVarElement" where
  "IntervalVarElement_new var =
     IntervalVarElement_Reset var
       \<lparr>i_var = None, start_min = 0, start_max = 0, duration_min = 0, duration_max = 0,
        end_min = 0, end_max = 0, performed_min = 0, performed_max = 0,
        i_activated = True\<rparr>"

text \<open>Modelled from the spec: the inline range setters of the element (pure value storage).\<close>

definition IntervalVarElement_SetStartRange ::
  "int64 \<Rightarrow> int64 \<Rightarrow> IntervalVarElement \<Rightarrow> IntervalVarElement" where
  "IntervalVarElement_SetStartRange mi ma e = e\<lparr>start_min := mi, start_max := ma\<rparr>"

definition IntervalVarElement_SetDurationRange ::
  "int64 \<Rightarrow> int64 \<Rightarrow> IntervalVarElement \<Rightarrow> IntervalVarElement" where
  "IntervalVarElement_SetDurationRange mi ma e = e\<lparr>duration_min := mi, duration_max := ma\<rparr>"

definition IntervalVarElement_SetEndRange ::
  "int64 \<Rightarrow> int64 \<Rightarrow> IntervalVarElement \<Rightarrow> IntervalVarElement" where
  "IntervalVarElement_SetEndRange mi ma e = e\<lparr>end_min := mi, end_max := ma\<rparr>"

definition IntervalVarElement_SetPerformedRange ::
  "int64 \<Rightarrow> int64 \<Rightarrow> IntervalVarElement \<Rightarrow> IntervalVarElement" where
  "IntervalVarElement_SetPerformedRange mi ma e = e\<lparr>performed_min := mi, performed_max := ma\<rparr>"

definition IntervalVarElement_Copy ::
  "IntervalVarElement \<Rightarrow> IntervalVarElement \<Rightarrow> IntervalVarElement" where
  "IntervalVarElement_Copy element e =
     (let e1 = IntervalVarElement_SetStartRange (start_min element) (start_max element) e;
          e2 = IntervalVarElement_SetDurationRange (duration_min element) (duration_max element) e1;
          e3 = IntervalVarElement_SetEndRange (end_min element) (end_max element) e2;
          e4 = IntervalVarElement_SetPerformedRange (performed_min element) (performed_max element) e3;
          e5 = e4\<lparr>i_var := i_var element\<rparr>
      in if IntervalVarElement_Activated element then IntervalVarElement_Activate e5
         else IntervalVarElement_Deactivate e5)"

definition IntervalVarElement_Store ::
  "'s solver_ops \<Rightarrow> 's \<Rightarrow> IntervalVarElement \<Rightarrow> IntervalVarElement option" where
  "IntervalVarElement_Store ops s e =
     (case i_var e of
        None \<Rightarrow> None
      | Some v \<Rightarrow>
          (let e1 = e\<lparr>performed_min := PerformedMin ops v s\<rparr>;
               e2 = e1\<lparr>performed_max := PerformedMax ops v s\<rparr>
           in if performed_max e2 \<noteq> 0 then
                Some (e2\<lparr>start_min := StartMin ops v s, start_max := StartMax ops v s,
                         duration_min := DurationMin ops v s, duration_max := DurationMax ops v s,
                         end_min := EndMin ops v s, end_max := EndMax ops v s\<rparr>)
              else Some e2))"

text \<open>
  \<^verbatim>\<open>IntervalVarElement::Restore\<close>: the variable pointer is followed inside the two guarded
  statements only, so an element bound to no variable whose guards are both false is restored
  without a call.
\<close>

definition IntervalVarElement_Restore ::
  "'s solver_ops \<Rightarrow> IntervalVarElement \<Rightarrow> 's \<Rightarrow> 's outcome" where
  "IntervalVarElement_Restore ops e s =
     and_then
       (if performed_max e = performed_min e then
          (case i_var e of
             None \<Rightarrow> Crashed
           | Some v \<Rightarrow> SetPerformed ops v (performed_min e) s)
        else Done s)
       (\<lambda>s1. if performed_max e \<noteq> 0 then
                (case i_var e of
                   None \<Rightarrow> Crashed
                 | Some v \<Rightarrow>
                     and_then (SetStartRange ops v (start_min e) (start_max e) s1)
                       (\<lambda>s2. and_then (SetDurationRange ops v (duration_min e) (duration_max e) s2)
                          (\<lambda>s3. SetEndRange ops v (end_min e) (end_max e) s3)))
              else Done s1)"

definition IntervalVarElement_DebugString :: "IntervalVarElement \<Rightarrow> string" where
  "IntervalVarElement_DebugString e =
     (if IntervalVarElement_Activated e then
        (let out0 = ''(start = '' @ show_int64 (start_min e);
             out1 = (if start_max e \<noteq> start_min e
                     then out0 @ ''..'' @ show_int64 (start_max e) else out0);
             out2 = out1 @ '', duration = '' @ show_int64 (duration_min e);
             out3 = (if duration_max e \<noteq> duration_min e
                     then out2 @ ''..'' @ show_int64 (duration_max e) else out2);
             out4 = out3 @ '', status = '' @ show_int64 (performed_min e);
             out5 = (if performed_max e \<noteq> performed_min e
                     then out4 @ ''..'' @ show_int64 (performed_max e) else out4)
         in out5)
      else ''(...)'')"

subsection \<open>AssignmentContainer\<close>

text \<open>
  Modelled from the spec: the container template of the header, an ordered sequence of
  elements looked up by the identity of their variable. \<open>Store\<close> stores every element in
  order; \<open>Restore\<close> restores the elements in order and ignores a deactivated element;
  the checked \<open>Add\<close> returns the element the variable already has or appends a fresh one;
  \<open>Copy\<close> finds or creates, for every element of the other container, the element of the same
  variable and copies the other element into it. The element's own member functions are
  parameters, as they are template arguments in the code.
\<close>

fun container_Store :: "('e \<Rightarrow> 'e option) \<Rightarrow> 'e list \<Rightarrow> 'e list option" where
  "container_Store st [] = Some []"
| "container_Store st (e # es) =
     (case st e of
        None \<Rightarrow> None
      | Some e' \<Rightarrow> (case container_Store st es of None \<Rightarrow> None | Some es' \<Rightarrow> Some (e' # es')))"

fun container_Restore ::
  "('e \<Rightarrow> bool) \<Rightarrow> ('e \<Rightarrow> 's \<Rightarrow> 's outcome) \<Rightarrow> 'e list \<Rightarrow> 's \<Rightarrow> 's outcome" where
  "container_Restore act rs [] s = Done s"
| "container_Restore act rs (e # es) s =
     and_then (if act e then rs e s else Done s) (container_Restore act rs es)"

fun container_Find :: "('e \<Rightarrow> var_ptr) \<Rightarrow> var_ptr \<Rightarrow> 'e list \<Rightarrow> nat option" where
  "container_Find var_of v [] = None"
| "container_Find var_of v (e # es) =
     (if var_of e = v then Some 0 else map_option Suc (container_Find var_of v es))"

definition container_Add ::
  "('e \<Rightarrow> var_ptr) \<Rightarrow> (var_ptr \<Rightarrow> 'e) \<Rightarrow> var_ptr \<Rightarrow> 'e list \<Rightarrow> 'e list \<times> nat" where
  "container_Add var_of mk v es =
     (case container_Find var_of v es of
        Some i \<Rightarrow> (es, i)
      | None \<Rightarrow> (es @ [mk v], length es))"

fun container_Copy ::
  "('e \<Rightarrow> var_ptr) \<Rightarrow> (var_ptr \<Rightarrow> 'e) \<Rightarrow> ('e \<Rightarrow> 'e \<Rightarrow> 'e) \<Rightarrow> 'e list \<Rightarrow> 'e list \<Rightarrow> 'e list" where
  "container_Copy var_of mk cp [] es = es"
| "container_Copy var_of mk cp (element # rest) es =
     (case container_Add var_of mk (var_of element) es of
        (es', i) \<Rightarrow> container_Copy var_of mk cp rest (es'[i := cp element (es' ! i)]))"

subsection \<open>Assignment\<close>

text \<open>
  The two containers are members of the Assignment. The objective element is a separate
  object that the Assignment owns through the pointer \<^verbatim>\<open>obj_element_\<close>: the objects allocated
  with \<^verbatim>\<open>new IntVarElement\<close> live in a store, a pointer is an index into it, and an allocation
  takes the next free index. \<^verbatim>\<open>objective_\<close> is a pointer to the live objective variable.
\<close>

type_synonym heap = "IntVarElement list"

record Assignment =
  int_var_container :: "IntVarElement list"
  interval_var_container :: "IntervalVarElement list"
  obj_element :: "nat option"
  objective :: var_ptr

text \<open>
  Modelled from the spec: the copy constructor of the container, a value copy of its elements.
\<close>

definition container_clone :: "'e list \<Rightarrow> 'e list" where
  "container_clone es = es"

text \<open>
  The owned pointer is \<^verbatim>\<open>NULL\<close> or the address of an allocated element. The constructors and
  the member functions below establish and keep this; the functions that follow the pointer
  are meant for such an Assignment.
\<close>

definition obj_valid :: "heap \<Rightarrow> Assignment \<Rightarrow> bool" where
  "obj_valid h a = (case obj_element a of None \<Rightarrow> True | Some p \<Rightarrow> p < length h)"

text \<open>Modelled from the spec: \<^verbatim>\<open>Clear\<close> of the container drops all its elements.\<close>

definition container_Clear :: "'e list \<Rightarrow> 'e list" where
  "container_Clear es = []"

text \<open>\<^verbatim>\<open>Assignment::Assignment(Solver*)\<close>\<close>

definition Assignment_new :: Assignment where
  "Assignment_new =
     \<lparr>int_var_container = [], interval_var_container = [], obj_element = None, objective = None\<rparr>"

text \<open>
  \<^verbatim>\<open>Assignment::Assignment(const Assignment*)\<close>: the two containers are copy-constructed, the
  objective element is cloned into a new object when there is one.
\<close>

definition Assignment_clone :: "Assignment \<Rightarrow> heap \<Rightarrow> Assignment \<times> heap" where
  "Assignment_clone copy h =
     (let a = \<lparr>int_var_container = container_clone (int_var_container copy),
               interval_var_container = container_clone (interval_var_container copy),
               obj_element = None, objective = None\<rparr>
      in case obj_element copy of
           None \<Rightarrow> (a, h)
         | Some p \<Rightarrow>
             (a\<lparr>obj_element := Some (length h), objective := objective copy\<rparr>,
              h @ [IntVarElement_Clone (h ! p)]))"

text \<open>
  \<^verbatim>\<open>Assignment::Clear\<close> deletes the objective element, sets both pointers to \<^verbatim>\<open>NULL\<close> and
  clears the two containers. The store never gives an address out twice, so the deleted
  object stays where it is, out of reach of the Assignment.
\<close>

definition Assignment_Clear :: "Assignment \<times> heap \<Rightarrow> Assignment \<times> heap" where
  "Assignment_Clear ah =
     (case ah of (a, h) \<Rightarrow>
        (a\<lparr>obj_element := None, objective := None,
           int_var_container := container_Clear (int_var_container a),
           interval_var_container := container_Clear (interval_var_container a)\<rparr>, h))"

text \<open>
  \<^verbatim>\<open>Assignment::Store\<close>: both containers, then the objective element when there is one. The
  result is \<open>None\<close> when an element is bound to no variable (a call through \<^verbatim>\<open>NULL\<close>).
\<close>

definition Assignment_Store ::
  "'s solver_ops \<Rightarrow> 's \<Rightarrow> Assignment \<times> heap \<Rightarrow> (Assignment \<times> heap) option" where
  "Assignment_Store ops s ah =
     (case ah of (a, h) \<Rightarrow>
        (case container_Store (IntVarElement_Store ops s) (int_var_container a) of
           None \<Rightarrow> None
         | Some ints \<Rightarrow>
             (case container_Store (IntervalVarElement_Store ops s) (interval_var_container a) of
                None \<Rightarrow> None
              | Some intervals \<Rightarrow>
                  (let a' = a\<lparr>int_var_container := ints, interval_var_container := intervals\<rparr>
                   in case obj_element a of
                        None \<Rightarrow> Some (a', h)
                      | Some p \<Rightarrow>
                          (case IntVarElement_Store ops s (h ! p) of
                             None \<Rightarrow> None
                           | Some e \<Rightarrow> Some (a', h[p := e]))))))"

text \<open>
  \<^verbatim>\<open>Assignment::Restore\<close>: four statements in sequence. A failure raised by one of them ends
  the function there.
\<close>

definition Assignment_Restore :: "'s solver_ops \<Rightarrow> Assignment \<Rightarrow> 's \<Rightarrow> 's outcome" where
  "Assignment_Restore ops a s =
     and_then (Done (FreezeQueue ops s))
       (\<lambda>s1. and_then
          (container_Restore IntVarElement_Activated (IntVarElement_Restore ops)
             (int_var_container a) s1)
          (\<lambda>s2. and_then
             (container_Restore IntervalVarElement_Activated (IntervalVarElement_Restore ops)
                (interval_var_container a) s2)
             (\<lambda>s3. UnfreezeQueue ops s3)))"

text \<open>
  \<^verbatim>\<open>Assignment::DebugString\<close>: the two loops append \<^verbatim>\<open>name (bounds) | \<close> for every element, in
  order; the objective element is appended when it is there and active. The name is read
  through the element's variable pointer.
\<close>

fun append_elements :: "('e \<Rightarrow> string option) \<Rightarrow> 'e list \<Rightarrow> string \<Rightarrow> string option" where
  "append_elements f [] out = Some out"
| "append_elements f (e # es) out =
     (case f e of None \<Rightarrow> None | Some t \<Rightarrow> append_elements f es (out @ t))"

definition Assignment_DebugString :: "'s solver_ops \<Rightarrow> heap \<Rightarrow> Assignment \<Rightarrow> string option" where
  "Assignment_DebugString ops h a =
     (case append_elements
             (\<lambda>element. case e_var element of
                           None \<Rightarrow> None
                         | Some v \<Rightarrow> Some (IntVar_name ops v @ '' ''
                                            @ IntVarElement_DebugString element @ '' | ''))
             (int_var_container a) ''Assignment('' of
        None \<Rightarrow> None
      | Some out1 \<Rightarrow>
          (case append_elements
                  (\<lambda>element. case i_var element of
                                None \<Rightarrow> None
                              | Some v \<Rightarrow> Some (IntervalVar_name ops v @ '' ''
                                                 @ IntervalVarElement_DebugString element @ '' | ''))
                  (interval_var_container a) out1 of
             None \<Rightarrow> None
           | Some out2 \<Rightarrow>
               (let out3 = (case obj_element a of
                              None \<Rightarrow> out2
                            | Some p \<Rightarrow> if IntVarElement_Activated (h ! p)
                                        then out2 @ IntVarElement_DebugString (h ! p) else out2)
                in Some (out3 @ '')''))))"

text \<open>
  Modelled from the spec: the macro \<^verbatim>\<open>CHECK\<close> of \<^verbatim>\<open>base/logging.h\<close>, which aborts when its
  condition is false (a fatal contract violation).
\<close>

datatype fatal = CheckFailed

text \<open>\<^verbatim>\<open>Assignment::AddObjective\<close> allocates the objective element, after the check.\<close>

definition Assignment_AddObjective ::
  "var_ptr \<Rightarrow> Assignment \<times> heap \<Rightarrow> fatal + Assignment \<times> heap" where
  "Assignment_AddObjective v ah =
     (case ah of (a, h) \<Rightarrow>
        if obj_element a \<noteq> None then Inl CheckFailed
        else Inr (a\<lparr>obj_element := Some (length h), objective := v\<rparr>, h @ [IntVarElement_new v]))"

text \<open>The objective accessors.\<close>

definition Assignment_Objective :: "Assignment \<Rightarrow> var_ptr" where
  "Assignment_Objective a = objective a"

definition Assignment_HasObjective :: "Assignment \<Rightarrow> bool" where
  "Assignment_HasObjective a = (obj_element a \<noteq> None)"

definition Assignment_ObjectiveMin :: "heap \<Rightarrow> Assignment \<Rightarrow> int64" where
  "Assignment_ObjectiveMin h a =
     (case obj_element a of Some p \<Rightarrow> IntVarElement_Min (h ! p) | None \<Rightarrow> 0)"

definition Assignment_ObjectiveMax :: "heap \<Rightarrow> Assignment \<Rightarrow> int64" where
  "Assignment_ObjectiveMax h a =
     (case obj_element a of Some p \<Rightarrow> IntVarElement_Max (h ! p) | None \<Rightarrow> 0)"

definition Assignment_ObjectiveValue :: "heap \<Rightarrow> Assignment \<Rightarrow> int64" where
  "Assignment_ObjectiveValue h a =
     (case obj_element a of Some p \<Rightarrow> IntVarElement_Value (h ! p) | None \<Rightarrow> 0)"

definition Assignment_ObjectiveBound :: "heap \<Rightarrow> Assignment \<Rightarrow> bool" where
  "Assignment_ObjectiveBound h a =
     (case obj_element a of Some p \<Rightarrow> IntVarElement_Bound (h ! p) | None \<Rightarrow> True)"

text \<open>
  \<^verbatim>\<open>Assignment::Copy\<close>: the two containers are copied from the other Assignment, and when both
  Assignments have an objective element, the range and the activation of the other's are
  set on this one's.
\<close>

definition Assignment_Copy :: "Assignment \<Rightarrow> Assignment \<times> heap \<Rightarrow> Assignment \<times> heap" where
  "Assignment_Copy assignment ah =
     (case ah of (a, h) \<Rightarrow>
        (let a' = a\<lparr>int_var_container :=
                       container_Copy e_var IntVarElement_new IntVarElement_Copy
                         (int_var_container assignment) (int_var_container a),
                     interval_var_container :=
                       container_Copy i_var IntervalVarElement_new IntervalVarElement_Copy
                         (interval_var_container assignment) (interval_var_container a)\<rparr>
         in case (obj_element assignment, obj_element a) of
              (Some q, Some p) \<Rightarrow>
                (let obj = h ! q;
                     e1 = IntVarElement_SetRange (IntVarElement_Min obj) (IntVarElement_Max obj) (h ! p);
                     e2 = (if IntVarElement_Activated obj then IntVarElement_Activate e1
                           else IntVarElement_Deactivate e1)
                 in (a', h[p := e2]))
            | _ \<Rightarrow> (a', h)))"

subsection \<open>A solver to run the code against\<close>

text \<open>
  Modelled from the spec: the live variables and the notification queue, which are outside
  this file. A bounded-integer variable is a range; narrowing it to a stored range gives the
  intersection of the two and fails exactly when the intersection is empty. An interval
  variable has a start, a duration and an end range and a performed status between 0 and 1;
  its range mutators narrow in the same way, and forcing the performed status fails when the
  value is outside the status's range. The queue is frozen or not. Comparisons are signed.
\<close>

record IntVar =
  vmin :: int64
  vmax :: int64

record IntervalVar =
  v_start_min :: int64
  v_start_max :: int64
  v_duration_min :: int64
  v_duration_max :: int64
  v_end_min :: int64
  v_end_max :: int64
  v_performed_min :: int64
  v_performed_max :: int64

record Solver =
  int_vars :: "nat \<Rightarrow> IntVar"
  interval_vars :: "nat \<Rightarrow> IntervalVar"
  queue_frozen :: bool

definition smax :: "int64 \<Rightarrow> int64 \<Rightarrow> int64" where
  "smax a b = (if sint a \<le> sint b then b else a)"

definition smin :: "int64 \<Rightarrow> int64 \<Rightarrow> int64" where
  "smin a b = (if sint a \<le> sint b then a else b)"

definition narrow_int :: "nat \<Rightarrow> int64 \<Rightarrow> int64 \<Rightarrow> Solver \<Rightarrow> Solver outcome" where
  "narrow_int v l u s =
     (let d = int_vars s v; lo = smax (vmin d) l; hi = smin (vmax d) u
      in if sint hi < sint lo then Failed s
         else Done (s\<lparr>int_vars := (int_vars s)(v := \<lparr>vmin = lo, vmax = hi\<rparr>)\<rparr>))"

definition narrow_interval ::
  "(IntervalVar \<Rightarrow> int64) \<Rightarrow> (IntervalVar \<Rightarrow> int64) \<Rightarrow>
   (int64 \<Rightarrow> int64 \<Rightarrow> IntervalVar \<Rightarrow> IntervalVar) \<Rightarrow>
   nat \<Rightarrow> int64 \<Rightarrow> int64 \<Rightarrow> Solver \<Rightarrow> Solver outcome" where
  "narrow_interval get_lo get_hi put v l u s =
     (let d = interval_vars s v; lo = smax (get_lo d) l; hi = smin (get_hi d) u
      in if sint hi < sint lo then Failed s
         else Done (s\<lparr>interval_vars := (interval_vars s)(v := put lo hi d)\<rparr>))"

definition force_performed :: "nat \<Rightarrow> int64 \<Rightarrow> Solver \<Rightarrow> Solver outcome" where
  "force_performed v x s =
     (let d = interval_vars s v
      in if sint x < sint (v_performed_min d) \<or> sint (v_performed_max d) < sint x then Failed s
         else Done (s\<lparr>interval_vars :=
                        (interval_vars s)(v := d\<lparr>v_performed_min := x, v_performed_max := x\<rparr>)\<rparr>))"

definition spec_solver :: "(nat \<Rightarrow> string) \<Rightarrow> (nat \<Rightarrow> string) \<Rightarrow> Solver solver_ops" where
  "spec_solver int_names interval_names =
     \<lparr>IntVar_Min = (\<lambda>v s. vmin (int_vars s v)),
      IntVar_Max = (\<lambda>v s. vmax (int_vars s v)),
      IntVar_SetRange = narrow_int,
      IntVar_name = int_names,
      StartMin = (\<lambda>v s. v_start_min (interval_vars s v)),
      StartMax = (\<lambda>v s. v_start_max (interval_vars s v)),
      DurationMin = (\<lambda>v s. v_duration_min (interval_vars s v)),
      DurationMax = (\<lambda>v s. v_duration_max (interval_vars s v)),
      EndMin = (\<lambda>v s. v_end_min (interval_vars s v)),
      EndMax = (\<lambda>v s. v_end_max (interval_vars s v)),
      PerformedMin = (\<lambda>v s. v_performed_min (interval_vars s v)),
      PerformedMax = (\<lambda>v s. v_performed_max (interval_vars s v)),
      SetPerformed = force_performed,
      SetStartRange =
        narrow_interval v_start_min v_start_max (\<lambda>lo hi d. d\<lparr>v_start_min := lo, v_start_max := hi\<rparr>),
      SetDurationRange =
        narrow_interval v_duration_min v_duration_max
          (\<lambda>lo hi d. d\<lparr>v_duration_min := lo, v_duration_max := hi\<rparr>),
      SetEndRange =
        narrow_interval v_end_min v_end_max (\<lambda>lo hi d. d\<lparr>v_end_min := lo, v_end_max := hi\<rparr>),
      IntervalVar_name = interval_names,
      FreezeQueue = (\<lambda>s. s\<lparr>queue_frozen := True\<rparr>),
      UnfreezeQueue = (\<lambda>s. Done (s\<lparr>queue_frozen := False\<rparr>))\<rparr>"

subsection \<open>Observations and sample inputs\<close>

text \<open>The state in which a call left the solver, whether it returned or raised a failure.\<close>

fun final_state :: "'s outcome \<Rightarrow> 's option" where
  "final_state (Done s) = Some s"
| "final_state (Failed s) = Some s"
| "final_state Crashed = None"

text \<open>An operation keeps an observation of the solver when no exit of it changes the observation.\<close>

definition keeps :: "('s \<Rightarrow> 'a) \<Rightarrow> ('s \<Rightarrow> 's outcome) \<Rightarrow> bool" where
  "keeps obs f \<longleftrightarrow> (\<forall>s s'. final_state (f s) = Some s' \<longrightarrow> obs s' = obs s)"

text \<open>The timing domains of a live interval variable.\<close>

definition timing :: "IntervalVar \<Rightarrow> (int64 \<times> int64) \<times> (int64 \<times> int64) \<times> (int64 \<times> int64)" where
  "timing d = ((v_start_min d, v_start_max d), (v_duration_min d, v_duration_max d),
               (v_end_min d, v_end_max d))"

text \<open>
  A solver with the integer variables x (number 0) in 0..10 and y (number 1) in 8..10, and
  interval variables that are undecided, with a start in 0..100.
\<close>

definition example_solver :: Solver where
  "example_solver =
     \<lparr>int_vars = (\<lambda>v. if v = 1 then \<lparr>vmin = 8, vmax = 10\<rparr> else \<lparr>vmin = 0, vmax = 10\<rparr>),
      interval_vars = (\<lambda>v. \<lparr>v_start_min = 0, v_start_max = 100,
                              v_duration_min = 5, v_duration_max = 5,
                              v_end_min = 5, v_end_max = 105,
                              v_performed_min = 0, v_performed_max = 1\<rparr>),
      queue_frozen = False\<rparr>"

definition example_names :: "nat \<Rightarrow> string" where
  "example_names v = (if v = 0 then ''x'' else if v = 1 then ''y'' else ''z'')"

definition example_ops :: "Solver solver_ops" where
  "example_ops = spec_solver example_names example_names"

text \<open>An Assignment that tracks x with the stored range 3..3 and y with the stored range 5..7.\<close>

definition example_assignment :: Assignment where
  "example_assignment =
     \<lparr>int_var_container =
        [\<lparr>e_var = Some 0, e_min = 3, e_max = 3, e_activated = True\<rparr>,
         \<lparr>e_var = Some 1, e_min = 5, e_max = 7, e_activated = True\<rparr>],
      interval_var_container = [],
      obj_element = None, objective = None\<rparr>"

text \<open>An interval element of variable 0 with stored timing and a given performed status.\<close>

definition example_interval :: "int64 \<Rightarrow> int64 \<Rightarrow> IntervalVarElement" where
  "example_interval pmin pmax =
     \<lparr>i_var = Some 0, start_min = 10, start_max = 20, duration_min = 5, duration_max = 5,
      end_min = 15, end_max = 25, performed_min = pmin, performed_max = pmax,
      i_activated = True\<rparr>"

text \<open>The sample solver after interval variable 0 has become unperformed.\<close>

definition unperformed_solver :: Solver where
  "unperformed_solver =
     example_solver\<lparr>interval_vars := (interval_vars example_solver)
        (0 := (interval_vars example_solver 0)\<lparr>v_performed_max := 0\<rparr>)\<rparr>"

text \<open>The sample solver with y in 0..10 as well.\<close>

definition feasible_solver :: Solver where
  "feasible_solver = example_solver\<lparr>int_vars := (\<lambda>v. \<lparr>vmin = 0, vmax = 10\<rparr>)\<rparr>"

text \<open>A range as the debug strings print it: one value when it is a single value.\<close>

definition show_range :: "int64 \<Rightarrow> int64 \<Rightarrow> string" where
  "show_range lo hi = (if hi \<noteq> lo then show_int64 lo @ ''..'' @ show_int64 hi else show_int64 lo)"

text \<open>
  The sample Assignment with an objective: variable 2, which neither container tracks; its
  element, at address 0 of the store, holds the range 4..4.
\<close>

definition objective_assignment :: Assignment where
  "objective_assignment = example_assignment\<lparr>obj_element := Some 0, objective := Some 2\<rparr>"

definition objective_heap :: heap where
  "objective_heap = [\<lparr>e_var = Some 2, e_min = 4, e_max = 4, e_activated = True\<rparr>]"

text \<open>
  Another Assignment, to copy from: it tracks y (deactivated, 1..2) and variable 3, one
  interval, and has the same objective variable; its objective element, at address 1 of the
  store \<open>two_heap\<close>, is deactivated and holds 6..9.
\<close>

definition other_assignment :: Assignment where
  "other_assignment =
     \<lparr>int_var_container =
        [\<lparr>e_var = Some 1, e_min = 1, e_max = 2, e_activated = False\<rparr>,
         \<lparr>e_var = Some 3, e_min = 0, e_max = 0, e_activated = True\<rparr>],
      interval_var_container = [example_interval 1 1],
      obj_element = Some 1, objective = Some 2\<rparr>"

definition two_heap :: heap where
  "two_heap = objective_heap @ [\<lparr>e_var = Some 2, e_min = 6, e_max = 9, e_activated = False\<rparr>]"

section \<open>Properties\<close>

subsection \<open>Sequencing and preservation\<close>

lemma and_then_Done_iff:
  "and_then r f = Done s' \<longleftrightarrow> (\<exists>s1. r = Done s1 \<and> f s1 = Done s')"
  by (cases r) simp_all

lemma and_then_Failed_iff:
  "and_then r f = Failed s' \<longleftrightarrow> r = Failed s' \<or> (\<exists>s1. r = Done s1 \<and> f s1 = Failed s')"
  by (cases r) auto

lemma and_then_Done_right: "and_then r Done = r"
  by (cases r) simp_all

lemma keepsI: "(\<And>s s'. final_state (f s) = Some s' \<Longrightarrow> obs s' = obs s) \<Longrightarrow> keeps obs f"
  by (simp add: keeps_def)

lemma keeps_Done: "keeps obs Done"
  by (simp add: keeps_def)

lemma keeps_Crashed: "keeps obs (\<lambda>s. Crashed)"
  by (simp add: keeps_def)

lemma keeps_and_then:
  assumes "keeps obs f" and "keeps obs g"
  shows "keeps obs (\<lambda>s. and_then (f s) g)"
proof (rule keepsI)
  fix s s'
  assume fin: "final_state (and_then (f s) g) = Some s'"
  show "obs s' = obs s"
  proof (cases "f s")
    case (Done s1)
    with fin have "final_state (g s1) = Some s'" by simp
    then have "obs s' = obs s1" using assms(2) by (simp add: keeps_def)
    moreover have "obs s1 = obs s" using assms(1) Done by (simp add: keeps_def)
    ultimately show ?thesis by simp
  next
    case (Failed s1)
    with fin have "s1 = s'" by simp
    with Failed show ?thesis using assms(1) by (simp add: keeps_def)
  next
    case Crashed
    with fin show ?thesis by simp
  qed
qed

lemma keeps_if:
  "(c \<Longrightarrow> keeps obs f) \<Longrightarrow> (\<not> c \<Longrightarrow> keeps obs g) \<Longrightarrow> keeps obs (\<lambda>s. if c then f s else g s)"
  by (simp add: keeps_def)

lemma keeps_container_Restore:
  assumes "\<And>e. e \<in> set es \<Longrightarrow> act e \<Longrightarrow> keeps obs (rs e)"
  shows "keeps obs (container_Restore act rs es)"
  using assms
proof (induction es)
  case Nil
  have "container_Restore act rs [] = Done" by (rule ext) simp
  then show ?case by (simp add: keeps_Done)
next
  case (Cons e es)
  have step: "keeps obs (\<lambda>s. if act e then rs e s else Done s)"
    by (rule keeps_if) (simp_all add: Cons.prems keeps_Done)
  have rest: "keeps obs (container_Restore act rs es)"
    by (rule Cons.IH) (simp add: Cons.prems)
  have "container_Restore act rs (e # es) =
        (\<lambda>s. and_then (if act e then rs e s else Done s) (container_Restore act rs es))"
    by (rule ext) simp
  then show ?case using keeps_and_then [OF step rest] by simp
qed

subsection \<open>What the mutators of the sample solver leave alone\<close>

lemma keeps_narrow_int:
  "keeps (\<lambda>s. (interval_vars s, queue_frozen s)) (narrow_int v l u)"
  "w \<noteq> v \<Longrightarrow> keeps (\<lambda>s. int_vars s w) (narrow_int v l u)"
  by (auto simp add: keeps_def narrow_int_def Let_def split: if_splits)

lemma keeps_narrow_interval:
  "keeps (\<lambda>s. (int_vars s, queue_frozen s)) (narrow_interval get_lo get_hi put v l u)"
  by (auto simp add: keeps_def narrow_interval_def Let_def split: if_splits)

lemma keeps_force_performed:
  "keeps (\<lambda>s. (int_vars s, queue_frozen s)) (force_performed v x)"
  "keeps (\<lambda>s. timing (interval_vars s w)) (force_performed v x)"
  by (auto simp add: keeps_def force_performed_def Let_def timing_def split: if_splits)

lemma keeps_IntVarElement_Restore:
  "keeps (\<lambda>s. (interval_vars s, queue_frozen s)) (IntVarElement_Restore (spec_solver n m) e)"
  "e_var e \<noteq> Some w \<Longrightarrow> keeps (\<lambda>s. int_vars s w) (IntVarElement_Restore (spec_solver n m) e)"
proof -
  have eq: "IntVarElement_Restore (spec_solver n m) e =
      (case e_var e of None \<Rightarrow> (\<lambda>s. Crashed) | Some v \<Rightarrow> narrow_int v (e_min e) (e_max e))"
    by (rule ext) (simp add: IntVarElement_Restore_def spec_solver_def split: option.splits)
  show "keeps (\<lambda>s. (interval_vars s, queue_frozen s)) (IntVarElement_Restore (spec_solver n m) e)"
    unfolding eq by (cases "e_var e") (simp_all add: keeps_Crashed keeps_narrow_int)
  show "keeps (\<lambda>s. int_vars s w) (IntVarElement_Restore (spec_solver n m) e)"
    if "e_var e \<noteq> Some w"
    unfolding eq using that by (cases "e_var e") (simp_all add: keeps_Crashed keeps_narrow_int)
qed

lemma keeps_IntervalVarElement_Restore:
  "keeps (\<lambda>s. (int_vars s, queue_frozen s)) (IntervalVarElement_Restore (spec_solver n m) e)"
proof (cases "i_var e")
  case None
  then show ?thesis
    by (auto simp add: keeps_def IntervalVarElement_Restore_def split: if_splits)
next
  case (Some v)
  let ?obs = "\<lambda>s. (int_vars s, queue_frozen s)"
  let ?ops = "spec_solver n m"
  have eq: "IntervalVarElement_Restore ?ops e =
     (\<lambda>s. and_then
        (if performed_max e = performed_min e then SetPerformed ?ops v (performed_min e) s
         else Done s)
        (\<lambda>s1. if performed_max e \<noteq> 0 then
                 and_then (SetStartRange ?ops v (start_min e) (start_max e) s1)
                   (\<lambda>s2. and_then (SetDurationRange ?ops v (duration_min e) (duration_max e) s2)
                      (SetEndRange ?ops v (end_min e) (end_max e)))
               else Done s1))"
    using Some by (intro ext) (simp add: IntervalVarElement_Restore_def cong: if_cong)
  have k1: "keeps ?obs (SetPerformed ?ops v x)" for x
    by (simp add: spec_solver_def keeps_force_performed)
  have k2: "keeps ?obs (SetStartRange ?ops v l u)" "keeps ?obs (SetDurationRange ?ops v l u)"
    "keeps ?obs (SetEndRange ?ops v l u)" for l u
    by (simp_all add: spec_solver_def keeps_narrow_interval)
  show ?thesis
    unfolding eq
    by (intro keeps_and_then keeps_if keeps_Done k1 k2)
qed

lemma keeps_weaken_snd: "keeps (\<lambda>s. (x s, y s)) f \<Longrightarrow> keeps y f"
  by (simp add: keeps_def)

lemma keeps_weaken_fst: "keeps (\<lambda>s. (x s, y s)) f \<Longrightarrow> keeps x f"
  by (simp add: keeps_def)

subsection \<open>The limits of the 64-bit range\<close>

lemma sint_kint64: "sint kint64min = - (2 ^ 63)" "sint kint64max = 2 ^ 63 - 1"
  by (simp_all add: kint64min_def kint64max_def)

lemma kint64_widest: "sint kint64min \<le> sint (x :: int64) \<and> sint x \<le> sint kint64max"
  using sint_ge [of x] sint_lt [of x] by (simp add: sint_kint64)

subsection \<open>The owned pointer stays valid\<close>

lemma obj_valid_new: "obj_valid h Assignment_new"
  by (simp add: obj_valid_def Assignment_new_def)

lemma obj_valid_AddObjective:
  assumes "Assignment_AddObjective v (a, h) = Inr (a', h')"
  shows "obj_valid h' a'"
  using assms by (auto simp add: Assignment_AddObjective_def obj_valid_def split: if_splits)

lemma obj_valid_Clear:
  assumes "Assignment_Clear (a, h) = (a', h')"
  shows "obj_valid h' a'"
  using assms by (auto simp add: Assignment_Clear_def obj_valid_def)

lemma obj_valid_Store:
  assumes "obj_valid h a" and "Assignment_Store ops s (a, h) = Some (a', h')"
  shows "obj_valid h' a'"
  using assms
  by (auto simp add: Assignment_Store_def obj_valid_def Let_def split: option.splits)

lemma obj_valid_Copy:
  assumes "obj_valid h a" and "Assignment_Copy other (a, h) = (a', h')"
  shows "obj_valid h' a'"
  using assms
  by (auto simp add: Assignment_Copy_def obj_valid_def Let_def split: option.splits)

section \<open>The claims\<close>

subsection \<open>Reset\<close>

text \<open>
  Claim C4, as the code has it: for every element, integer or interval, and every variable
  argument, \<^verbatim>\<open>NULL\<close> included, \<open>Reset\<close> rebinds the element to the variable and sets the
  stored bounds to the widest 64-bit signed range (for an interval also the performed status
  to 0..1, undecided). It assigns nothing else, so the activation flag is what it was before
  the call; an element is active after construction because its constructor makes it so
  before it calls \<open>Reset\<close>.
\<close>

theorem Reset_keeps_activation:
  "IntVarElement_Reset var e =
     \<lparr>e_var = var, e_min = kint64min, e_max = kint64max, e_activated = e_activated e\<rparr>
   \<and> IntervalVarElement_Reset ivar ie =
     \<lparr>i_var = ivar, start_min = kint64min, start_max = kint64max,
      duration_min = kint64min, duration_max = kint64max,
      end_min = kint64min, end_max = kint64max,
      performed_min = 0, performed_max = 1, i_activated = i_activated ie\<rparr>
   \<and> (\<forall>x :: int64. sint kint64min \<le> sint x \<and> sint x \<le> sint kint64max)
   \<and> IntVarElement_Activated (IntVarElement_new var)
   \<and> IntervalVarElement_Activated (IntervalVarElement_new ivar)"
  by (simp add: IntVarElement_Reset_def IntervalVarElement_Reset_def kint64_widest
      IntVarElement_Activated_def IntVarElement_new_def
      IntervalVarElement_Activated_def IntervalVarElement_new_def)

text \<open>
  Claim C4 as stated fails: an element that was deactivated is still deactivated after
  \<open>Reset\<close>.
\<close>

theorem Reset_deactivated_counterexample:
  "\<not> IntVarElement_Activated
       (IntVarElement_Reset (Some 1) (IntVarElement_Deactivate (IntVarElement_new (Some 1))))"
  by (simp add: IntVarElement_Reset_def IntVarElement_Activated_def IntVarElement_new_def
      IntVarElement_Deactivate_def)

subsection \<open>Store of an interval element\<close>

text \<open>
  Claim C5: when the live \<^verbatim>\<open>PerformedMax()\<close> of the element's variable reads 0, \<open>Store\<close>
  writes the two performed fields only and the six stored start, duration and end fields keep
  their previous values; when it reads another value, \<open>Store\<close> also reads the six live
  start, duration and end bounds into the stored fields.
\<close>

theorem IntervalVarElement_Store_unperformed:
  assumes "i_var e = Some v"
  shows "(PerformedMax ops v s = 0 \<longrightarrow>
            IntervalVarElement_Store ops s e =
              Some (e\<lparr>performed_min := PerformedMin ops v s, performed_max := 0\<rparr>))
       \<and> (PerformedMax ops v s \<noteq> 0 \<longrightarrow>
            IntervalVarElement_Store ops s e =
              Some (e\<lparr>performed_min := PerformedMin ops v s,
                      performed_max := PerformedMax ops v s,
                      start_min := StartMin ops v s, start_max := StartMax ops v s,
                      duration_min := DurationMin ops v s, duration_max := DurationMax ops v s,
                      end_min := EndMin ops v s, end_max := EndMax ops v s\<rparr>))"
  using assms by (simp add: IntervalVarElement_Store_def Let_def)

text \<open>
  On the sample solver: an element that holds the timing 10..20, 5..5, 15..25 of an earlier
  performed state keeps it when the variable is unperformed, and reads the live timing
  otherwise.
\<close>

theorem IntervalVarElement_Store_unperformed_witness:
  "i_var (example_interval 1 1) = Some 0
   \<and> PerformedMax example_ops 0 unperformed_solver = 0
   \<and> IntervalVarElement_Store example_ops unperformed_solver (example_interval 1 1) =
       Some (example_interval 0 0)
   \<and> PerformedMax example_ops 0 example_solver \<noteq> 0
   \<and> IntervalVarElement_Store example_ops example_solver (example_interval 1 1) =
       Some \<lparr>i_var = Some 0, start_min = 0, start_max = 100, duration_min = 5, duration_max = 5,
             end_min = 5, end_max = 105, performed_min = 0, performed_max = 1,
             i_activated = True\<rparr>"
proof -
  have v: "i_var (example_interval 1 1) = Some 0"
    by (simp add: example_interval_def)
  have p0: "PerformedMax example_ops 0 unperformed_solver = 0"
    by (simp add: example_ops_def spec_solver_def unperformed_solver_def example_solver_def)
  have p1: "PerformedMax example_ops 0 example_solver \<noteq> 0"
    by (simp add: example_ops_def spec_solver_def example_solver_def)
  from IntervalVarElement_Store_unperformed [OF v, of example_ops unperformed_solver] p0
  have a: "IntervalVarElement_Store example_ops unperformed_solver (example_interval 1 1) =
       Some (example_interval 0 0)"
    by (simp add: example_interval_def example_ops_def spec_solver_def unperformed_solver_def
        example_solver_def)
  from IntervalVarElement_Store_unperformed [OF v, of example_ops example_solver] p1
  have b: "IntervalVarElement_Store example_ops example_solver (example_interval 1 1) =
       Some \<lparr>i_var = Some 0, start_min = 0, start_max = 100, duration_min = 5, duration_max = 5,
             end_min = 5, end_max = 105, performed_min = 0, performed_max = 1,
             i_activated = True\<rparr>"
    by (simp add: example_interval_def example_ops_def spec_solver_def example_solver_def)
  from v p0 a p1 b show ?thesis by simp
qed

subsection \<open>Restore of an interval element\<close>

text \<open>
  Claim C1: \<open>Restore\<close> of an interval element first forces the live performed status to
  \<open>performed_min\<close>, exactly when \<open>performed_min = performed_max\<close>, and then pushes the
  stored start, duration and end ranges, in this order, exactly when \<open>performed_max \<noteq> 0\<close>.
  When \<open>performed_max = 0\<close> no range is pushed: the result does not depend on what the three
  range mutators do, and on the sample solver the timing domains of every live variable are
  what they were. This holds for every implementation of the live variable, for an element
  bound to a variable.
\<close>

theorem IntervalVarElement_Restore_order:
  assumes "i_var e = Some v"
  shows "(performed_max e = performed_min e \<and> performed_max e \<noteq> 0 \<longrightarrow>
            IntervalVarElement_Restore ops e s =
              and_then (SetPerformed ops v (performed_min e) s)
                (\<lambda>s1. and_then (SetStartRange ops v (start_min e) (start_max e) s1)
                   (\<lambda>s2. and_then (SetDurationRange ops v (duration_min e) (duration_max e) s2)
                      (\<lambda>s3. SetEndRange ops v (end_min e) (end_max e) s3))))
       \<and> (performed_max e \<noteq> performed_min e \<and> performed_max e \<noteq> 0 \<longrightarrow>
            IntervalVarElement_Restore ops e s =
              and_then (SetStartRange ops v (start_min e) (start_max e) s)
                (\<lambda>s2. and_then (SetDurationRange ops v (duration_min e) (duration_max e) s2)
                   (\<lambda>s3. SetEndRange ops v (end_min e) (end_max e) s3)))
       \<and> (performed_max e = 0 \<and> performed_min e = 0 \<longrightarrow>
            IntervalVarElement_Restore ops e s = SetPerformed ops v 0 s)
       \<and> (performed_max e = 0 \<and> performed_min e \<noteq> 0 \<longrightarrow>
            IntervalVarElement_Restore ops e s = Done s)
       \<and> (performed_max e = 0 \<longrightarrow>
            IntervalVarElement_Restore
              (ops\<lparr>SetStartRange := f, SetDurationRange := g, SetEndRange := k\<rparr>) e s =
            IntervalVarElement_Restore ops e s)
       \<and> (performed_max e = 0 \<and>
            final_state (IntervalVarElement_Restore (spec_solver n m) e t) = Some t' \<longrightarrow>
            timing (interval_vars t' w) = timing (interval_vars t w))"
proof -
  have general: "(performed_max e = performed_min e \<and> performed_max e \<noteq> 0 \<longrightarrow>
            IntervalVarElement_Restore ops e s =
              and_then (SetPerformed ops v (performed_min e) s)
                (\<lambda>s1. and_then (SetStartRange ops v (start_min e) (start_max e) s1)
                   (\<lambda>s2. and_then (SetDurationRange ops v (duration_min e) (duration_max e) s2)
                      (\<lambda>s3. SetEndRange ops v (end_min e) (end_max e) s3))))
       \<and> (performed_max e \<noteq> performed_min e \<and> performed_max e \<noteq> 0 \<longrightarrow>
            IntervalVarElement_Restore ops e s =
              and_then (SetStartRange ops v (start_min e) (start_max e) s)
                (\<lambda>s2. and_then (SetDurationRange ops v (duration_min e) (duration_max e) s2)
                   (\<lambda>s3. SetEndRange ops v (end_min e) (end_max e) s3)))
       \<and> (performed_max e = 0 \<and> performed_min e = 0 \<longrightarrow>
            IntervalVarElement_Restore ops e s = SetPerformed ops v 0 s)
       \<and> (performed_max e = 0 \<and> performed_min e \<noteq> 0 \<longrightarrow>
            IntervalVarElement_Restore ops e s = Done s)
       \<and> (performed_max e = 0 \<longrightarrow>
            IntervalVarElement_Restore
              (ops\<lparr>SetStartRange := f, SetDurationRange := g, SetEndRange := k\<rparr>) e s =
            IntervalVarElement_Restore ops e s)"
    using assms by (auto simp add: IntervalVarElement_Restore_def and_then_Done_right)
  have sample: "timing (interval_vars t' w) = timing (interval_vars t w)"
    if zero: "performed_max e = 0"
      and fin: "final_state (IntervalVarElement_Restore (spec_solver n m) e t) = Some t'"
  proof (cases "performed_min e = 0")
    case True
    with zero assms have "IntervalVarElement_Restore (spec_solver n m) e t = force_performed v 0 t"
      by (simp add: IntervalVarElement_Restore_def and_then_Done_right spec_solver_def)
    with fin show ?thesis
      using keeps_force_performed(2) [of w v 0] by (simp add: keeps_def)
  next
    case False
    with zero assms have "IntervalVarElement_Restore (spec_solver n m) e t = Done t"
      by (simp add: IntervalVarElement_Restore_def)
    with fin show ?thesis by simp
  qed
  from general sample show ?thesis by blast
qed

text \<open>
  On the sample solver, for the four combinations of the stored performed status: (0,0) forces
  unperformed and leaves the live start 0..100 alone, though the element holds 10..20; (1,0)
  does nothing; (1,1) forces performed and narrows; (0,1) narrows only.
\<close>

theorem IntervalVarElement_Restore_order_witness:
  "i_var (example_interval 0 0) = Some 0
   \<and> IntervalVarElement_Restore example_ops (example_interval 0 0) example_solver =
       Done unperformed_solver
   \<and> timing (interval_vars unperformed_solver 0) = timing (interval_vars example_solver 0)
   \<and> IntervalVarElement_Restore example_ops (example_interval 1 0) example_solver =
       Done example_solver
   \<and> IntervalVarElement_Restore example_ops (example_interval 1 1) example_solver =
       Done (example_solver\<lparr>interval_vars := (interval_vars example_solver)
               (0 := \<lparr>v_start_min = 10, v_start_max = 20, v_duration_min = 5, v_duration_max = 5,
                      v_end_min = 15, v_end_max = 25,
                      v_performed_min = 1, v_performed_max = 1\<rparr>)\<rparr>)
   \<and> IntervalVarElement_Restore example_ops (example_interval 0 1) example_solver =
       Done (example_solver\<lparr>interval_vars := (interval_vars example_solver)
               (0 := \<lparr>v_start_min = 10, v_start_max = 20, v_duration_min = 5, v_duration_max = 5,
                      v_end_min = 15, v_end_max = 25,
                      v_performed_min = 0, v_performed_max = 1\<rparr>)\<rparr>)"
proof -
  have v00: "i_var (example_interval 0 0) = Some 0" and v10: "i_var (example_interval 1 0) = Some 0"
    and v11: "i_var (example_interval 1 1) = Some 0" and v01: "i_var (example_interval 0 1) = Some 0"
    by (simp_all add: example_interval_def)
  note ev = example_interval_def example_ops_def spec_solver_def example_solver_def
    unperformed_solver_def force_performed_def narrow_interval_def smax_def smin_def Let_def
  have r00: "IntervalVarElement_Restore example_ops (example_interval 0 0) example_solver =
       Done unperformed_solver"
    using IntervalVarElement_Restore_order [OF v00, where ops = example_ops and s = example_solver]
    by (simp add: ev)
  have t00: "timing (interval_vars unperformed_solver 0) = timing (interval_vars example_solver 0)"
    using IntervalVarElement_Restore_order [OF v00, where n = example_names and m = example_names
        and t = example_solver and t' = unperformed_solver and w = 0] r00
    by (simp add: timing_def unperformed_solver_def)
  have r10: "IntervalVarElement_Restore example_ops (example_interval 1 0) example_solver =
       Done example_solver"
    using IntervalVarElement_Restore_order [OF v10, where ops = example_ops and s = example_solver]
    by (simp add: example_interval_def)
  have r11: "IntervalVarElement_Restore example_ops (example_interval 1 1) example_solver =
       Done (example_solver\<lparr>interval_vars := (interval_vars example_solver)
               (0 := \<lparr>v_start_min = 10, v_start_max = 20, v_duration_min = 5, v_duration_max = 5,
                      v_end_min = 15, v_end_max = 25,
                      v_performed_min = 1, v_performed_max = 1\<rparr>)\<rparr>)"
    using IntervalVarElement_Restore_order [OF v11, where ops = example_ops and s = example_solver]
    by (simp add: ev)
  have r01: "IntervalVarElement_Restore example_ops (example_interval 0 1) example_solver =
       Done (example_solver\<lparr>interval_vars := (interval_vars example_solver)
               (0 := \<lparr>v_start_min = 10, v_start_max = 20, v_duration_min = 5, v_duration_max = 5,
                      v_end_min = 15, v_end_max = 25,
                      v_performed_min = 0, v_performed_max = 1\<rparr>)\<rparr>)"
    using IntervalVarElement_Restore_order [OF v01, where ops = example_ops and s = example_solver]
    by (simp add: ev)
  from v00 r00 t00 r10 r11 r01 show ?thesis by simp
qed

subsection \<open>Restore of an Assignment and the notification queue\<close>

lemma keeps_restore_containers:
  "keeps queue_frozen
     (\<lambda>s1. and_then
         (container_Restore IntVarElement_Activated (IntVarElement_Restore (spec_solver n m))
            (int_var_container a) s1)
         (container_Restore IntervalVarElement_Activated
            (IntervalVarElement_Restore (spec_solver n m)) (interval_var_container a)))"
  by (intro keeps_and_then keeps_container_Restore
      keeps_weaken_snd [OF keeps_IntVarElement_Restore(1)]
      keeps_weaken_snd [OF keeps_IntervalVarElement_Restore])

text \<open>
  Claim C2, as the code has it: \<open>Restore\<close> freezes the queue before it restores any
  element, restores the integer and then the interval container, and unfreezes the queue
  after the last element, when every element's \<open>Restore\<close> has returned. A constraint
  failure raised by an element's \<open>Restore\<close> leaves the function at that point, and the call
  to unfreeze is not reached. So on the sample solver the queue is not frozen after every
  return of \<open>Restore\<close>, and is still frozen at every failure exit.
\<close>

theorem Assignment_Restore_unfreezes_on_return:
  "(Assignment_Restore (spec_solver n m) a s = Done s' \<longrightarrow> \<not> queue_frozen s')
   \<and> (Assignment_Restore (spec_solver n m) a s = Failed s' \<longrightarrow> queue_frozen s')
   \<and> Assignment_Restore ops a t =
       and_then
         (and_then
            (container_Restore IntVarElement_Activated (IntVarElement_Restore ops)
               (int_var_container a) (FreezeQueue ops t))
            (container_Restore IntervalVarElement_Activated (IntervalVarElement_Restore ops)
               (interval_var_container a)))
         (UnfreezeQueue ops)"
proof (intro conjI impI)
  let ?both = "\<lambda>s1. and_then
         (container_Restore IntVarElement_Activated (IntVarElement_Restore (spec_solver n m))
            (int_var_container a) s1)
         (container_Restore IntervalVarElement_Activated
            (IntervalVarElement_Restore (spec_solver n m)) (interval_var_container a))"
  have assoc: "and_then r (\<lambda>x. and_then (f x) g) = and_then (and_then r f) g"
    for r :: "'c outcome" and f g
    by (cases r) simp_all
  show general: "Assignment_Restore ops a t =
       and_then
         (and_then
            (container_Restore IntVarElement_Activated (IntVarElement_Restore ops)
               (int_var_container a) (FreezeQueue ops t))
            (container_Restore IntervalVarElement_Activated (IntervalVarElement_Restore ops)
               (interval_var_container a)))
         (UnfreezeQueue ops)" for ops :: "'c solver_ops" and t
    by (simp add: Assignment_Restore_def assoc)
  have eq: "Assignment_Restore (spec_solver n m) a s =
      and_then (?both (s\<lparr>queue_frozen := True\<rparr>)) (\<lambda>s3. Done (s3\<lparr>queue_frozen := False\<rparr>))"
    by (simp add: general) (simp add: spec_solver_def)
  {
    assume "Assignment_Restore (spec_solver n m) a s = Done s'"
    then obtain s3 where "s' = s3\<lparr>queue_frozen := False\<rparr>"
      unfolding eq by (auto simp add: and_then_Done_iff)
    then show "\<not> queue_frozen s'" by simp
  }
  {
    assume "Assignment_Restore (spec_solver n m) a s = Failed s'"
    then have "?both (s\<lparr>queue_frozen := True\<rparr>) = Failed s'"
      unfolding eq by (auto simp add: and_then_Failed_iff)
    then have "final_state (?both (s\<lparr>queue_frozen := True\<rparr>)) = Some s'" by simp
    then have "queue_frozen s' = queue_frozen (s\<lparr>queue_frozen := True\<rparr>)"
      using keeps_restore_containers [of n m a] by (simp add: keeps_def)
    then show "queue_frozen s'" by simp
  }
qed

text \<open>
  Claim C2 as stated fails on the failure path: the Assignment stores 3..3 for x and 5..7 for
  y, the live y is in 8..10. \<open>Restore\<close> narrows x, fails on y, and the queue stays frozen.
\<close>

theorem Assignment_Restore_failure_counterexample:
  "Assignment_Restore example_ops example_assignment example_solver
     = Failed (example_solver\<lparr>int_vars := (int_vars example_solver)(0 := \<lparr>vmin = 3, vmax = 3\<rparr>),
                              queue_frozen := True\<rparr>)
   \<and> queue_frozen (example_solver\<lparr>int_vars := (int_vars example_solver)(0 := \<lparr>vmin = 3, vmax = 3\<rparr>),
                              queue_frozen := True\<rparr>)"
  by (simp add: Assignment_Restore_def example_assignment_def example_solver_def spec_solver_def
      example_ops_def IntVarElement_Restore_def IntVarElement_Activated_def narrow_int_def
      smax_def smin_def Let_def)

text \<open>With y in 0..10 the same \<open>Restore\<close> returns, x is 3 and y is in 5..7, the queue runs.\<close>

theorem Assignment_Restore_unfreezes_on_return_witness:
  "Assignment_Restore example_ops example_assignment feasible_solver =
     Done (feasible_solver\<lparr>int_vars := (int_vars feasible_solver)
             (0 := \<lparr>vmin = 3, vmax = 3\<rparr>, 1 := \<lparr>vmin = 5, vmax = 7\<rparr>)\<rparr>)
   \<and> \<not> queue_frozen (feasible_solver\<lparr>int_vars := (int_vars feasible_solver)
             (0 := \<lparr>vmin = 3, vmax = 3\<rparr>, 1 := \<lparr>vmin = 5, vmax = 7\<rparr>)\<rparr>)
   \<and> Assignment_Restore example_ops example_assignment example_solver =
     Failed (example_solver\<lparr>int_vars := (int_vars example_solver)(0 := \<lparr>vmin = 3, vmax = 3\<rparr>),
                             queue_frozen := True\<rparr>)"
proof -
  note ev = Assignment_Restore_def example_assignment_def example_solver_def spec_solver_def
      example_ops_def IntVarElement_Restore_def IntVarElement_Activated_def narrow_int_def
      smax_def smin_def Let_def feasible_solver_def
  let ?ok = "feasible_solver\<lparr>int_vars := (int_vars feasible_solver)
             (0 := \<lparr>vmin = 3, vmax = 3\<rparr>, 1 := \<lparr>vmin = 5, vmax = 7\<rparr>)\<rparr>"
  let ?bad = "example_solver\<lparr>int_vars := (int_vars example_solver)(0 := \<lparr>vmin = 3, vmax = 3\<rparr>),
                             queue_frozen := True\<rparr>"
  have d: "Assignment_Restore example_ops example_assignment feasible_solver = Done ?ok"
    by (simp add: ev)
  have f: "Assignment_Restore example_ops example_assignment example_solver = Failed ?bad"
    by (simp add: ev)
  have d': "Assignment_Restore (spec_solver example_names example_names) example_assignment
      feasible_solver = Done ?ok"
    using d by (simp only: example_ops_def)
  have "Assignment_Restore (spec_solver example_names example_names) example_assignment
      feasible_solver = Done ?ok \<longrightarrow> \<not> queue_frozen ?ok"
    using Assignment_Restore_unfreezes_on_return [where n = example_names and m = example_names
        and a = example_assignment and s = feasible_solver and s' = ?ok]
    by (rule conjunct1)
  then have "\<not> queue_frozen ?ok"
    using d' by (rule mp)
  with d f show ?thesis by simp
qed

subsection \<open>Debug rendering of an interval element\<close>

lemma show_nat_last: "show_nat n \<noteq> [] \<and> last (show_nat n) = digit_char (n mod 10)"
proof (cases "n < 10")
  case True
  then show ?thesis by (subst (1 2) show_nat.simps) simp
next
  case False
  then show ?thesis by (subst (1 2) show_nat.simps) simp
qed

lemma digit_char_not_paren: "digit_char (n mod 10) \<noteq> CHR '')''"
proof
  assume "digit_char (n mod 10) = CHR '')''"
  then have "of_char (digit_char (n mod 10)) = (of_char (CHR '')'') :: nat)" by simp
  moreover have "48 + n mod 10 < 256"
    using mod_less_divisor [of 10 n] by linarith
  ultimately show False by (simp add: digit_char_def)
qed

lemma show_int64_last: "show_int64 x \<noteq> [] \<and> last (show_int64 x) \<noteq> CHR '')''"
  by (simp add: show_int64_def show_int_def show_nat_last digit_char_not_paren)

lemma show_range_last: "show_range lo hi \<noteq> [] \<and> last (show_range lo hi) \<noteq> CHR '')''"
  by (simp add: show_range_def show_int64_last)

lemma IntervalVarElement_DebugString_shape:
  "IntervalVarElement_DebugString e =
     (if IntervalVarElement_Activated e then
        ''(start = '' @ show_range (start_min e) (start_max e)
        @ '', duration = '' @ show_range (duration_min e) (duration_max e)
        @ '', status = '' @ show_range (performed_min e) (performed_max e)
      else ''(...)'')"
  by (simp add: IntervalVarElement_DebugString_def show_range_def Let_def)

lemma IntervalVarElement_DebugString_open:
  assumes "IntervalVarElement_Activated e"
  shows "last (IntervalVarElement_DebugString e) \<noteq> CHR '')''"
  using assms show_range_last [of "performed_min e" "performed_max e"]
  by (simp add: IntervalVarElement_DebugString_shape)

text \<open>
  Claim C8 at three elements: the rendering of an activated interval element opens a
  parenthesis and prints the start, the duration and the status, each as one value or as a
  range, and then stops; no closing parenthesis is appended (lemma
  \<open>IntervalVarElement_DebugString_open\<close>: for no activated element). A deactivated element
  renders as \<^verbatim>\<open>(...)\<close>.
\<close>

theorem IntervalVarElement_DebugString_unclosed:
  "IntervalVarElement_DebugString (example_interval 1 1) =
     ''(start = 10..20, duration = 5, status = 1''
   \<and> IntervalVarElement_DebugString (example_interval 0 1) =
     ''(start = 10..20, duration = 5, status = 0..1''
   \<and> IntervalVarElement_DebugString (IntervalVarElement_Deactivate (example_interval 1 1)) =
     ''(...)''"
  by code_simp

subsection \<open>The objective\<close>

text \<open>
  Claim C9: on an Assignment with no objective, \<open>ObjectiveMin\<close>, \<open>ObjectiveMax\<close> and
  \<open>ObjectiveValue\<close> return 0 and \<open>ObjectiveBound\<close> returns true. The four getters have no
  failing branch.
\<close>

theorem objective_getters_default:
  assumes "\<not> Assignment_HasObjective a"
  shows "Assignment_ObjectiveMin h a = 0 \<and> Assignment_ObjectiveMax h a = 0
       \<and> Assignment_ObjectiveValue h a = 0 \<and> Assignment_ObjectiveBound h a"
  using assms
  by (simp add: Assignment_HasObjective_def Assignment_ObjectiveMin_def
      Assignment_ObjectiveMax_def Assignment_ObjectiveValue_def Assignment_ObjectiveBound_def)

text \<open>On a newly constructed Assignment.\<close>

theorem objective_getters_default_witness:
  "\<not> Assignment_HasObjective Assignment_new
   \<and> Assignment_ObjectiveMin [] Assignment_new = 0 \<and> Assignment_ObjectiveMax [] Assignment_new = 0
   \<and> Assignment_ObjectiveValue [] Assignment_new = 0 \<and> Assignment_ObjectiveBound [] Assignment_new"
proof -
  have h: "\<not> Assignment_HasObjective Assignment_new"
    by (simp add: Assignment_HasObjective_def Assignment_new_def)
  from h objective_getters_default [OF h, of "[]"] show ?thesis by simp
qed

text \<open>
  Claim C6, as the code has it: \<open>AddObjective\<close> looks at the objective slot, not at the
  calls made before. On an Assignment whose slot is empty it allocates the objective element
  and sets the slot: \<open>HasObjective\<close> is true afterwards, \<open>Objective\<close> returns the variable,
  and the next \<open>AddObjective\<close>, with the same or another variable, fails its \<^verbatim>\<open>CHECK\<close>. On
  an Assignment whose slot is set, every \<open>AddObjective\<close> fails its \<^verbatim>\<open>CHECK\<close> and nothing is
  replaced. The slot is empty after the construction from a solver and after \<open>Clear\<close>; a clone
  has its slot set exactly when the original has.
\<close>

theorem AddObjective_by_slot:
  "(\<not> Assignment_HasObjective a \<longrightarrow>
      Assignment_AddObjective v (a, h) =
        Inr (a\<lparr>obj_element := Some (length h), objective := v\<rparr>, h @ [IntVarElement_new v])
      \<and> Assignment_HasObjective (a\<lparr>obj_element := Some (length h), objective := v\<rparr>)
      \<and> Assignment_Objective (a\<lparr>obj_element := Some (length h), objective := v\<rparr>) = v
      \<and> Assignment_AddObjective w
          (a\<lparr>obj_element := Some (length h), objective := v\<rparr>, h @ [IntVarElement_new v]) =
        Inl CheckFailed)
   \<and> (Assignment_HasObjective a \<longrightarrow> Assignment_AddObjective w (a, h) = Inl CheckFailed)
   \<and> \<not> Assignment_HasObjective Assignment_new
   \<and> \<not> Assignment_HasObjective (fst (Assignment_Clear (a, h)))
   \<and> Assignment_HasObjective (fst (Assignment_clone a h)) = Assignment_HasObjective a"
  by (auto simp add: Assignment_HasObjective_def Assignment_AddObjective_def
      Assignment_Objective_def Assignment_new_def Assignment_Clear_def Assignment_clone_def
      Let_def split: option.splits)

text \<open>
  Claim C6 as stated fails in both halves. A later call succeeds: after \<open>AddObjective\<close> of
  variable 0 on a new Assignment and \<open>Clear\<close>, \<open>AddObjective\<close> of variable 1 sets the slot
  again. A first call fails: on the clone of the sample Assignment with an objective, the
  first \<open>AddObjective\<close> fails its \<^verbatim>\<open>CHECK\<close>.
\<close>

theorem AddObjective_after_Clear_counterexample:
  "Assignment_AddObjective (Some 0) (Assignment_new, []) =
     Inr (Assignment_new\<lparr>obj_element := Some 0, objective := Some 0\<rparr>, [IntVarElement_new (Some 0)])
   \<and> Assignment_AddObjective (Some 1)
       (Assignment_Clear
          (Assignment_new\<lparr>obj_element := Some 0, objective := Some 0\<rparr>,
           [IntVarElement_new (Some 0)])) =
     Inr (Assignment_new\<lparr>obj_element := Some 1, objective := Some 1\<rparr>,
          [IntVarElement_new (Some 0), IntVarElement_new (Some 1)])
   \<and> Assignment_AddObjective (Some 3) (Assignment_clone objective_assignment objective_heap) =
     Inl CheckFailed"
  by (simp add: Assignment_AddObjective_def Assignment_new_def Assignment_Clear_def
      container_Clear_def Assignment_clone_def objective_assignment_def Let_def)

text \<open>
  On a newly constructed Assignment: adding variable 0, then variable 1 or 0 again; and the
  slot after \<open>Clear\<close>.
\<close>

theorem AddObjective_by_slot_witness:
  "\<not> Assignment_HasObjective Assignment_new
   \<and> Assignment_AddObjective (Some 0) (Assignment_new, []) =
       Inr (Assignment_new\<lparr>obj_element := Some 0, objective := Some 0\<rparr>,
            [\<lparr>e_var = Some 0, e_min = kint64min, e_max = kint64max, e_activated = True\<rparr>])
   \<and> Assignment_HasObjective (Assignment_new\<lparr>obj_element := Some 0, objective := Some 0\<rparr>)
   \<and> Assignment_AddObjective (Some 1)
        (Assignment_new\<lparr>obj_element := Some 0, objective := Some 0\<rparr>,
         [\<lparr>e_var = Some 0, e_min = kint64min, e_max = kint64max, e_activated = True\<rparr>]) =
       Inl CheckFailed
   \<and> Assignment_AddObjective (Some 0)
        (Assignment_new\<lparr>obj_element := Some 0, objective := Some 0\<rparr>,
         [\<lparr>e_var = Some 0, e_min = kint64min, e_max = kint64max, e_activated = True\<rparr>]) =
       Inl CheckFailed
   \<and> \<not> Assignment_HasObjective
         (fst (Assignment_Clear
                 (Assignment_new\<lparr>obj_element := Some 0, objective := Some 0\<rparr>,
                  [\<lparr>e_var = Some 0, e_min = kint64min, e_max = kint64max, e_activated = True\<rparr>])))"
proof -
  have h: "\<not> Assignment_HasObjective Assignment_new"
    by (simp add: Assignment_HasObjective_def Assignment_new_def)
  have n: "IntVarElement_new (Some 0) =
      \<lparr>e_var = Some 0, e_min = kint64min, e_max = kint64max, e_activated = True\<rparr>"
    by (simp add: IntVarElement_new_def IntVarElement_Reset_def)
  from h AddObjective_by_slot [of Assignment_new "Some 0" "[]" "Some 1"]
    AddObjective_by_slot [of Assignment_new "Some 0" "[]" "Some 0"]
    AddObjective_by_slot [of "Assignment_new\<lparr>obj_element := Some 0, objective := Some 0\<rparr>" _
      "[\<lparr>e_var = Some 0, e_min = kint64min, e_max = kint64max, e_activated = True\<rparr>]"]
  show ?thesis by (simp add: n)
qed

subsection \<open>Store and Restore of the objective\<close>

lemma keeps_image: "keeps obs f \<Longrightarrow> keeps (\<lambda>s. g (obs s)) f"
  by (simp add: keeps_def)

lemma keeps_Assignment_Restore:
  assumes "Some q \<notin> e_var ` set (int_var_container a)"
  shows "keeps (\<lambda>s. int_vars s q) (Assignment_Restore (spec_solver n m) a)"
proof -
  let ?obs = "\<lambda>s :: Solver. int_vars s q"
  let ?ops = "spec_solver n m"
  have freeze: "keeps ?obs (\<lambda>s. Done (FreezeQueue ?ops s))"
    by (simp add: keeps_def spec_solver_def)
  have unfreeze: "keeps ?obs (UnfreezeQueue ?ops)"
    by (simp add: keeps_def spec_solver_def)
  have ints: "keeps ?obs (container_Restore IntVarElement_Activated (IntVarElement_Restore ?ops)
      (int_var_container a))"
  proof (rule keeps_container_Restore)
    fix e assume "e \<in> set (int_var_container a)"
    with assms have "e_var e \<noteq> Some q" by force
    then show "keeps ?obs (IntVarElement_Restore ?ops e)"
      by (rule keeps_IntVarElement_Restore(2))
  qed
  have intervals: "keeps ?obs (container_Restore IntervalVarElement_Activated
      (IntervalVarElement_Restore ?ops) (interval_var_container a))"
    by (intro keeps_container_Restore
        keeps_image [OF keeps_weaken_fst [OF keeps_IntervalVarElement_Restore],
          where g = "\<lambda>f. f q"])
  have eq: "Assignment_Restore ?ops a =
     (\<lambda>s. and_then (Done (FreezeQueue ?ops s))
       (\<lambda>s1. and_then
          (container_Restore IntVarElement_Activated (IntVarElement_Restore ?ops)
             (int_var_container a) s1)
          (\<lambda>s2. and_then
             (container_Restore IntervalVarElement_Activated (IntervalVarElement_Restore ?ops)
                (interval_var_container a) s2)
             (UnfreezeQueue ?ops))))"
    by (rule ext) (simp add: Assignment_Restore_def)
  show ?thesis
    unfolding eq by (intro keeps_and_then freeze unfreeze ints intervals)
qed

text \<open>
  Claim C10: \<open>Store\<close> of an Assignment stores the objective element when there is one: the
  element's bounds become the live minimum and maximum of its variable. \<open>Restore\<close> restores
  the two containers only: it does not read the objective slot, and on the sample solver a
  variable that no element of the integer container is bound to has the same live range after
  \<open>Restore\<close>, on return and on failure, as before.
\<close>

theorem Store_reads_objective_Restore_never_writes_it:
  "(container_Store (IntVarElement_Store ops s) (int_var_container a) = Some ints
      \<and> container_Store (IntervalVarElement_Store ops s) (interval_var_container a) = Some intervals
      \<and> obj_element a = Some p \<and> p < length h \<and> e_var (h ! p) = Some q \<longrightarrow>
      Assignment_Store ops s (a, h) =
        Some (a\<lparr>int_var_container := ints, interval_var_container := intervals\<rparr>,
              h[p := (h ! p)\<lparr>e_min := IntVar_Min ops q s, e_max := IntVar_Max ops q s\<rparr>]))
   \<and> Assignment_Restore ops (a\<lparr>obj_element := oe, objective := ov\<rparr>) s =
       Assignment_Restore ops a s
   \<and> (Some w \<notin> e_var ` set (int_var_container a)
      \<and> final_state (Assignment_Restore (spec_solver n m) a t) = Some t' \<longrightarrow>
      int_vars t' w = int_vars t w)"
proof (intro conjI impI)
  assume "container_Store (IntVarElement_Store ops s) (int_var_container a) = Some ints
      \<and> container_Store (IntervalVarElement_Store ops s) (interval_var_container a) = Some intervals
      \<and> obj_element a = Some p \<and> p < length h \<and> e_var (h ! p) = Some q"
  then show "Assignment_Store ops s (a, h) =
        Some (a\<lparr>int_var_container := ints, interval_var_container := intervals\<rparr>,
              h[p := (h ! p)\<lparr>e_min := IntVar_Min ops q s, e_max := IntVar_Max ops q s\<rparr>])"
    by (simp add: Assignment_Store_def IntVarElement_Store_def)
next
  show "Assignment_Restore ops (a\<lparr>obj_element := oe, objective := ov\<rparr>) s =
       Assignment_Restore ops a s"
    by (simp add: Assignment_Restore_def)
next
  assume "Some w \<notin> e_var ` set (int_var_container a)
      \<and> final_state (Assignment_Restore (spec_solver n m) a t) = Some t'"
  then show "int_vars t' w = int_vars t w"
    using keeps_Assignment_Restore [of w a n m] by (simp add: keeps_def)
qed

text \<open>
  On the sample solver: \<open>Store\<close> reads 0..10 into the objective element; \<open>Restore\<close>
  narrows x and y and leaves variable 2 in 0..10, though the objective element holds 4..4.
\<close>

theorem Store_reads_objective_Restore_never_writes_it_witness:
  "Assignment_Store example_ops feasible_solver (objective_assignment, objective_heap) =
     Some (objective_assignment\<lparr>int_var_container :=
              [\<lparr>e_var = Some 0, e_min = 0, e_max = 10, e_activated = True\<rparr>,
               \<lparr>e_var = Some 1, e_min = 0, e_max = 10, e_activated = True\<rparr>]\<rparr>,
           [\<lparr>e_var = Some 2, e_min = 0, e_max = 10, e_activated = True\<rparr>])
   \<and> Assignment_Restore example_ops objective_assignment feasible_solver =
     Done (feasible_solver\<lparr>int_vars := (int_vars feasible_solver)
             (0 := \<lparr>vmin = 3, vmax = 3\<rparr>, 1 := \<lparr>vmin = 5, vmax = 7\<rparr>)\<rparr>)
   \<and> int_vars (feasible_solver\<lparr>int_vars := (int_vars feasible_solver)
             (0 := \<lparr>vmin = 3, vmax = 3\<rparr>, 1 := \<lparr>vmin = 5, vmax = 7\<rparr>)\<rparr>) 2
     = \<lparr>vmin = 0, vmax = 10\<rparr>"
proof -
  let ?ok = "feasible_solver\<lparr>int_vars := (int_vars feasible_solver)
             (0 := \<lparr>vmin = 3, vmax = 3\<rparr>, 1 := \<lparr>vmin = 5, vmax = 7\<rparr>)\<rparr>"
  note ev = Assignment_Restore_def example_assignment_def example_solver_def spec_solver_def
      example_ops_def IntVarElement_Restore_def IntVarElement_Activated_def narrow_int_def
      smax_def smin_def Let_def feasible_solver_def objective_assignment_def objective_heap_def
  have st: "Assignment_Store example_ops feasible_solver (objective_assignment, objective_heap) =
     Some (objective_assignment\<lparr>int_var_container :=
              [\<lparr>e_var = Some 0, e_min = 0, e_max = 10, e_activated = True\<rparr>,
               \<lparr>e_var = Some 1, e_min = 0, e_max = 10, e_activated = True\<rparr>]\<rparr>,
           [\<lparr>e_var = Some 2, e_min = 0, e_max = 10, e_activated = True\<rparr>])"
    by (simp add: ev Assignment_Store_def IntVarElement_Store_def)
  have rs: "Assignment_Restore (spec_solver example_names example_names) objective_assignment
      feasible_solver = Done ?ok"
    by (simp add: ev)
  have untracked: "Some 2 \<notin> e_var ` set (int_var_container objective_assignment)"
    by (simp add: objective_assignment_def example_assignment_def)
  have "Some 2 \<notin> e_var ` set (int_var_container objective_assignment)
      \<and> final_state (Assignment_Restore (spec_solver example_names example_names)
            objective_assignment feasible_solver) = Some ?ok \<longrightarrow>
      int_vars ?ok 2 = int_vars feasible_solver 2"
    by (rule Store_reads_objective_Restore_never_writes_it [where a = objective_assignment
        and w = 2 and n = example_names and m = example_names and t = feasible_solver
        and t' = ?ok, THEN conjunct2, THEN conjunct2])
  with untracked rs have "int_vars ?ok 2 = int_vars feasible_solver 2" by simp
  then have "int_vars ?ok 2 = \<lparr>vmin = 0, vmax = 10\<rparr>"
    by (simp add: feasible_solver_def)
  with st rs show ?thesis by (simp only: example_ops_def) 
qed

subsection \<open>Copies of elements and containers\<close>

text \<open>The element's \<open>Copy\<close> assigns every field, and so does \<open>Clone\<close>.\<close>

lemma IntVarElement_Copy_eq: "IntVarElement_Copy element e = element"
  by (simp add: IntVarElement_Copy_def IntVarElement_SetRange_def IntVarElement_Activated_def
      IntVarElement_Activate_def IntVarElement_Deactivate_def Let_def)

lemma IntervalVarElement_Copy_eq: "IntervalVarElement_Copy element e = element"
  by (simp add: IntervalVarElement_Copy_def IntervalVarElement_SetStartRange_def
      IntervalVarElement_SetDurationRange_def IntervalVarElement_SetEndRange_def
      IntervalVarElement_SetPerformedRange_def IntervalVarElement_Activated_def
      IntervalVarElement_Activate_def IntervalVarElement_Deactivate_def Let_def)

lemma IntVarElement_Clone_eq: "IntVarElement_Clone e = e"
  by (simp add: IntVarElement_Clone_def IntVarElement_Copy_eq)

lemma container_Find_Some:
  "container_Find var_of v es = Some i \<Longrightarrow> i < length es \<and> var_of (es ! i) = v"
  by (induction es arbitrary: i) (auto split: if_splits)

lemma container_Find_None:
  "container_Find var_of v es = None \<Longrightarrow> v \<notin> var_of ` set es"
  by (induction es) (auto split: if_splits)

text \<open>One step of the copy loop: the element found or created, overwritten.\<close>

lemma container_Copy_step:
  assumes add: "container_Add var_of mk (var_of x) es = (es', i)"
  shows "i < length es' \<and> length es \<le> length es'
       \<and> (\<forall>j < length es. j \<noteq> i \<longrightarrow> es'[i := y] ! j = es ! j)
       \<and> (i < length es \<longrightarrow> var_of (es ! i) = var_of x)"
proof (cases "container_Find var_of (var_of x) es")
  case None
  with add have "es' = es @ [mk (var_of x)]" and "i = length es"
    by (simp_all add: container_Add_def)
  then show ?thesis by (simp add: nth_append)
next
  case (Some k)
  with add have "es' = es" and "i = k"
    by (simp_all add: container_Add_def)
  with container_Find_Some [OF Some] show ?thesis by simp
qed

lemma container_Copy_frame:
  assumes cpv: "\<And>x y. var_of (cp x y) = var_of x"
  shows "length es \<le> length (container_Copy var_of mk cp other es)
       \<and> (\<forall>j < length es.
            var_of (container_Copy var_of mk cp other es ! j) = var_of (es ! j)
            \<and> (var_of (es ! j) \<notin> var_of ` set other \<longrightarrow>
                 container_Copy var_of mk cp other es ! j = es ! j))"
proof (induction other arbitrary: es)
  case Nil
  show ?case by simp
next
  case (Cons x rest)
  obtain es' i where add: "container_Add var_of mk (var_of x) es = (es', i)"
    by (cases "container_Add var_of mk (var_of x) es")
  let ?es = "es'[i := cp x (es' ! i)]"
  have res: "container_Copy var_of mk cp (x # rest) es = container_Copy var_of mk cp rest ?es"
    using add by simp
  note step = container_Copy_step [OF add, of "cp x (es' ! i)"]
  have len: "length es \<le> length ?es" using step by simp
  have var: "var_of (?es ! j) = var_of (es ! j)" if "j < length es" for j
  proof (cases "j = i")
    case True
    with that step have "var_of (es ! j) = var_of x" by simp
    moreover from True step have "?es ! j = cp x (es' ! i)" by simp
    ultimately show ?thesis by (simp add: cpv)
  next
    case False
    with that step show ?thesis by simp
  qed
  have same: "?es ! j = es ! j" if "j < length es" "var_of (es ! j) \<noteq> var_of x" for j
  proof -
    from that step have "j \<noteq> i" by auto
    with that step show ?thesis by simp
  qed
  note IH = Cons.IH [of ?es]
  show ?case
  proof (intro conjI allI impI)
    show "length es \<le> length (container_Copy var_of mk cp (x # rest) es)"
      using IH len unfolding res by linarith
  next
    fix j assume j: "j < length es"
    with len have j': "j < length ?es" by linarith
    show "var_of (container_Copy var_of mk cp (x # rest) es ! j) = var_of (es ! j)"
      using IH j' var [OF j] unfolding res by simp
  next
    fix j assume j: "j < length es"
      and out: "var_of (es ! j) \<notin> var_of ` set (x # rest)"
    with len have j': "j < length ?es" by linarith
    from out have nx: "var_of (es ! j) \<noteq> var_of x" and nrest: "var_of (es ! j) \<notin> var_of ` set rest"
      by auto
    from nrest var [OF j] have "var_of (?es ! j) \<notin> var_of ` set rest" by simp
    with IH j' have "container_Copy var_of mk cp rest ?es ! j = ?es ! j" by simp
    with same [OF j nx] show "container_Copy var_of mk cp (x # rest) es ! j = es ! j"
      unfolding res by simp
  qed
qed

lemma container_Copy_contains:
  assumes cp: "\<And>x y. cp x y = x" and dist: "distinct (map var_of other)"
  shows "set other \<subseteq> set (container_Copy var_of mk cp other es)"
  using dist
proof (induction other arbitrary: es)
  case Nil
  show ?case by simp
next
  case (Cons x rest)
  obtain es' i where add: "container_Add var_of mk (var_of x) es = (es', i)"
    by (cases "container_Add var_of mk (var_of x) es")
  let ?es = "es'[i := cp x (es' ! i)]"
  have res: "container_Copy var_of mk cp (x # rest) es = container_Copy var_of mk cp rest ?es"
    using add by simp
  note step = container_Copy_step [OF add, of "cp x (es' ! i)"]
  have cpv: "var_of (cp x y) = var_of x" for x y by (simp add: cp)
  note frame = container_Copy_frame [of var_of cp ?es mk rest, OF cpv]
  have i: "i < length ?es" and at: "?es ! i = x"
    using step by (simp_all add: cp)
  from Cons.prems have "var_of x \<notin> var_of ` set rest" by auto
  with at have "var_of (?es ! i) \<notin> var_of ` set rest" by simp
  with frame i have "container_Copy var_of mk cp rest ?es ! i = x"
    using at by simp
  moreover from frame i have "i < length (container_Copy var_of mk cp rest ?es)" by linarith
  ultimately have "x \<in> set (container_Copy var_of mk cp rest ?es)"
    by (metis nth_mem)
  moreover from Cons.prems have "set rest \<subseteq> set (container_Copy var_of mk cp rest ?es)"
    by (intro Cons.IH) simp
  ultimately show ?case unfolding res by simp
qed

subsection \<open>Copy of an Assignment\<close>

text \<open>
  Claim C3: \<open>Copy\<close> merges the two containers of the other Assignment into this one (an
  element of this whose variable the other does not track is what it was, at its position;
  the elements of the other, when its variables are distinct, are elements of this
  afterwards). It leaves the objective slot and the objective variable of this as they
  were. When both have an objective, the objective element of this takes the minimum, the
  maximum and the activation flag of the other's, and keeps its variable; when one of them has
  none, no object of the store changes.
\<close>

theorem Assignment_Copy_merge:
  assumes "Assignment_Copy other (a, h) = (a', h')"
  shows "int_var_container a' =
           container_Copy e_var IntVarElement_new IntVarElement_Copy
             (int_var_container other) (int_var_container a)
       \<and> interval_var_container a' =
           container_Copy i_var IntervalVarElement_new IntervalVarElement_Copy
             (interval_var_container other) (interval_var_container a)
       \<and> (\<forall>j < length (int_var_container a).
             e_var (int_var_container a ! j) \<notin> e_var ` set (int_var_container other) \<longrightarrow>
             int_var_container a' ! j = int_var_container a ! j)
       \<and> (\<forall>j < length (interval_var_container a).
             i_var (interval_var_container a ! j) \<notin> i_var ` set (interval_var_container other) \<longrightarrow>
             interval_var_container a' ! j = interval_var_container a ! j)
       \<and> (distinct (map e_var (int_var_container other)) \<longrightarrow>
             set (int_var_container other) \<subseteq> set (int_var_container a'))
       \<and> (distinct (map i_var (interval_var_container other)) \<longrightarrow>
             set (interval_var_container other) \<subseteq> set (interval_var_container a'))
       \<and> objective a' = objective a \<and> obj_element a' = obj_element a
       \<and> (\<forall>q p. obj_element other = Some q \<and> obj_element a = Some p \<longrightarrow>
             h' = h[p := (h ! p)\<lparr>e_min := e_min (h ! q), e_max := e_max (h ! q),
                                 e_activated := e_activated (h ! q)\<rparr>])
       \<and> (obj_element other = None \<or> obj_element a = None \<longrightarrow> h' = h)"
proof -
  let ?ints = "container_Copy e_var IntVarElement_new IntVarElement_Copy
             (int_var_container other) (int_var_container a)"
  let ?intervals = "container_Copy i_var IntervalVarElement_new IntervalVarElement_Copy
             (interval_var_container other) (interval_var_container a)"
  have a': "a' = a\<lparr>int_var_container := ?ints, interval_var_container := ?intervals\<rparr>"
    using assms
    by (auto simp add: Assignment_Copy_def Let_def split: option.splits)
  have c1: "int_var_container a' = ?ints" and c2: "interval_var_container a' = ?intervals"
    and c7: "objective a' = objective a \<and> obj_element a' = obj_element a"
    by (simp_all add: a')
  have c3: "\<forall>j < length (int_var_container a).
             e_var (int_var_container a ! j) \<notin> e_var ` set (int_var_container other) \<longrightarrow>
             int_var_container a' ! j = int_var_container a ! j"
    unfolding c1
    using container_Copy_frame [of e_var IntVarElement_Copy "int_var_container a"
        IntVarElement_new "int_var_container other"]
    by (simp add: IntVarElement_Copy_eq)
  have c4: "\<forall>j < length (interval_var_container a).
             i_var (interval_var_container a ! j) \<notin> i_var ` set (interval_var_container other) \<longrightarrow>
             interval_var_container a' ! j = interval_var_container a ! j"
    unfolding c2
    using container_Copy_frame [of i_var IntervalVarElement_Copy "interval_var_container a"
        IntervalVarElement_new "interval_var_container other"]
    by (simp add: IntervalVarElement_Copy_eq)
  have c5: "distinct (map e_var (int_var_container other)) \<longrightarrow>
             set (int_var_container other) \<subseteq> set (int_var_container a')"
    unfolding c1
    by (intro impI container_Copy_contains) (simp_all add: IntVarElement_Copy_eq)
  have c6: "distinct (map i_var (interval_var_container other)) \<longrightarrow>
             set (interval_var_container other) \<subseteq> set (interval_var_container a')"
    unfolding c2
    by (intro impI container_Copy_contains) (simp_all add: IntervalVarElement_Copy_eq)
  have c8: "\<forall>q p. obj_element other = Some q \<and> obj_element a = Some p \<longrightarrow>
             h' = h[p := (h ! p)\<lparr>e_min := e_min (h ! q), e_max := e_max (h ! q),
                                 e_activated := e_activated (h ! q)\<rparr>]"
    using assms
    by (auto simp add: Assignment_Copy_def Let_def IntVarElement_SetRange_def
        IntVarElement_Min_def IntVarElement_Max_def IntVarElement_Activated_def
        IntVarElement_Activate_def IntVarElement_Deactivate_def)
  have c9: "obj_element other = None \<or> obj_element a = None \<longrightarrow> h' = h"
    using assms
    by (auto simp add: Assignment_Copy_def Let_def split: option.splits)
  from c1 c2 c3 c4 c5 c6 c7 c8 c9 show ?thesis by blast
qed

text \<open>
  Copying into the sample Assignment with an objective, and into the one without: y is
  overwritten, variable 3 and the interval are created, x is kept; the objective element
  becomes 6..9, deactivated, in the first case and the store is unchanged in the second.
\<close>

theorem Assignment_Copy_merge_witness:
  "Assignment_Copy other_assignment (objective_assignment, two_heap) =
     (objective_assignment\<lparr>int_var_container :=
         [\<lparr>e_var = Some 0, e_min = 3, e_max = 3, e_activated = True\<rparr>,
          \<lparr>e_var = Some 1, e_min = 1, e_max = 2, e_activated = False\<rparr>,
          \<lparr>e_var = Some 3, e_min = 0, e_max = 0, e_activated = True\<rparr>],
        interval_var_container := [example_interval 1 1]\<rparr>,
      [\<lparr>e_var = Some 2, e_min = 6, e_max = 9, e_activated = False\<rparr>,
       \<lparr>e_var = Some 2, e_min = 6, e_max = 9, e_activated = False\<rparr>])
   \<and> objective (objective_assignment\<lparr>int_var_container :=
         [\<lparr>e_var = Some 0, e_min = 3, e_max = 3, e_activated = True\<rparr>,
          \<lparr>e_var = Some 1, e_min = 1, e_max = 2, e_activated = False\<rparr>,
          \<lparr>e_var = Some 3, e_min = 0, e_max = 0, e_activated = True\<rparr>],
        interval_var_container := [example_interval 1 1]\<rparr>) = Some 2
   \<and> Assignment_Copy other_assignment (example_assignment, two_heap) =
     (example_assignment\<lparr>int_var_container :=
         [\<lparr>e_var = Some 0, e_min = 3, e_max = 3, e_activated = True\<rparr>,
          \<lparr>e_var = Some 1, e_min = 1, e_max = 2, e_activated = False\<rparr>,
          \<lparr>e_var = Some 3, e_min = 0, e_max = 0, e_activated = True\<rparr>],
        interval_var_container := [example_interval 1 1]\<rparr>,
      two_heap)"
proof -
  note ev = Assignment_Copy_def other_assignment_def objective_assignment_def two_heap_def
    objective_heap_def example_assignment_def container_Add_def IntVarElement_Copy_eq
    IntervalVarElement_Copy_eq IntVarElement_new_def IntervalVarElement_new_def
    IntVarElement_SetRange_def IntVarElement_Min_def IntVarElement_Max_def
    IntVarElement_Activated_def IntVarElement_Activate_def IntVarElement_Deactivate_def Let_def
  let ?a' = "objective_assignment\<lparr>int_var_container :=
         [\<lparr>e_var = Some 0, e_min = 3, e_max = 3, e_activated = True\<rparr>,
          \<lparr>e_var = Some 1, e_min = 1, e_max = 2, e_activated = False\<rparr>,
          \<lparr>e_var = Some 3, e_min = 0, e_max = 0, e_activated = True\<rparr>],
        interval_var_container := [example_interval 1 1]\<rparr>"
  have both: "Assignment_Copy other_assignment (objective_assignment, two_heap) =
     (?a',
      [\<lparr>e_var = Some 2, e_min = 6, e_max = 9, e_activated = False\<rparr>,
       \<lparr>e_var = Some 2, e_min = 6, e_max = 9, e_activated = False\<rparr>])"
    by (simp add: ev)
  have one: "Assignment_Copy other_assignment (example_assignment, two_heap) =
     (example_assignment\<lparr>int_var_container :=
         [\<lparr>e_var = Some 0, e_min = 3, e_max = 3, e_activated = True\<rparr>,
          \<lparr>e_var = Some 1, e_min = 1, e_max = 2, e_activated = False\<rparr>,
          \<lparr>e_var = Some 3, e_min = 0, e_max = 0, e_activated = True\<rparr>],
        interval_var_container := [example_interval 1 1]\<rparr>,
      two_heap)"
    by (simp add: ev)
  have "objective ?a' = objective objective_assignment"
    using Assignment_Copy_merge [OF both] by blast
  then have "objective ?a' = Some 2"
    by (simp add: objective_assignment_def)
  with both one show ?thesis by simp
qed

subsection \<open>Cloning an Assignment\<close>

text \<open>
  Claim C7: the copy constructor gives the clone the elements of both containers, with their
  bounds, flags and variables, and, when the original has an objective, a newly allocated
  objective element that equals the original's, with the same objective variable. The debug
  string of the clone is that of the original. The clone's objective element is a different
  object: whatever is written to it afterwards, every object that existed before the cloning,
  the original's objective element among them, is unchanged.
\<close>

theorem Assignment_clone_deep:
  assumes "obj_valid h a" and "Assignment_clone a h = (c, h')"
  shows "int_var_container c = int_var_container a
       \<and> interval_var_container c = interval_var_container a
       \<and> (obj_element a = None \<longrightarrow> obj_element c = None \<and> h' = h)
       \<and> (\<forall>p. obj_element a = Some p \<longrightarrow>
             obj_element c = Some (length h) \<and> p \<noteq> length h \<and> objective c = objective a
             \<and> h' ! length h = h ! p \<and> h' ! p = h ! p)
       \<and> Assignment_DebugString ops h' c = Assignment_DebugString ops h a
       \<and> (\<forall>p' e q. obj_element c = Some p' \<and> q < length h \<longrightarrow> h'[p' := e] ! q = h ! q)
       \<and> obj_valid h' c"
proof (cases "obj_element a")
  case None
  with assms(2) have c: "c = \<lparr>int_var_container = int_var_container a,
               interval_var_container = interval_var_container a,
               obj_element = None, objective = None\<rparr>" and h': "h' = h"
    by (auto simp add: Assignment_clone_def container_clone_def Let_def)
  show ?thesis
    using None
    by (simp add: c h' Assignment_DebugString_def obj_valid_def cong: option.case_cong)
next
  case (Some p)
  with assms(1) have p: "p < length h"
    by (simp add: obj_valid_def)
  from Some assms(2) have c: "c = \<lparr>int_var_container = int_var_container a,
               interval_var_container = interval_var_container a,
               obj_element = Some (length h), objective = objective a\<rparr>"
    and h': "h' = h @ [h ! p]"
    by (auto simp add: Assignment_clone_def container_clone_def Let_def IntVarElement_Clone_eq)
  have cells: "h' ! length h = h ! p" "h' ! p = h ! p"
    using p by (simp_all add: h' nth_append)
  have debug: "Assignment_DebugString ops h' c = Assignment_DebugString ops h a"
    using Some cells
    by (simp add: Assignment_DebugString_def c cong: option.case_cong if_cong)
  have indep: "\<forall>p' e q. obj_element c = Some p' \<and> q < length h \<longrightarrow> h'[p' := e] ! q = h ! q"
    by (auto simp add: c h' nth_append)
  show ?thesis
    using Some p cells debug indep by (simp add: c obj_valid_def h')
qed

text \<open>Cloning the sample Assignment with an objective.\<close>

theorem Assignment_clone_deep_witness:
  "obj_valid objective_heap objective_assignment
   \<and> Assignment_clone objective_assignment objective_heap =
       (objective_assignment\<lparr>obj_element := Some 1\<rparr>,
        [\<lparr>e_var = Some 2, e_min = 4, e_max = 4, e_activated = True\<rparr>,
         \<lparr>e_var = Some 2, e_min = 4, e_max = 4, e_activated = True\<rparr>])
   \<and> Assignment_DebugString example_ops
        [\<lparr>e_var = Some 2, e_min = 4, e_max = 4, e_activated = True\<rparr>,
         \<lparr>e_var = Some 2, e_min = 4, e_max = 4, e_activated = True\<rparr>]
        (objective_assignment\<lparr>obj_element := Some 1\<rparr>) =
       Assignment_DebugString example_ops objective_heap objective_assignment
   \<and> Assignment_DebugString example_ops objective_heap objective_assignment =
       Some ''Assignment(x (3) | y (5..7) | (4))''"
proof -
  let ?h' = "[\<lparr>e_var = Some 2, e_min = 4, e_max = 4, e_activated = True\<rparr>,
         \<lparr>e_var = Some 2, e_min = 4, e_max = 4, e_activated = True\<rparr>]"
  have valid: "obj_valid objective_heap objective_assignment"
    by (simp add: obj_valid_def objective_assignment_def objective_heap_def)
  have clone: "Assignment_clone objective_assignment objective_heap =
       (objective_assignment\<lparr>obj_element := Some 1\<rparr>, ?h')"
    by (simp add: Assignment_clone_def container_clone_def objective_assignment_def
        objective_heap_def example_assignment_def IntVarElement_Clone_eq)
  have same: "Assignment_DebugString example_ops ?h' (objective_assignment\<lparr>obj_element := Some 1\<rparr>) =
       Assignment_DebugString example_ops objective_heap objective_assignment"
    using Assignment_clone_deep [OF valid clone] by blast
  have rendered: "Assignment_DebugString example_ops objective_heap objective_assignment =
       Some ''Assignment(x (3) | y (5..7) | (4))''"
    by code_simp
  from valid clone same rendered show ?thesis by simp
qed

end
